theory Spec2Isabelle
  imports Main "HOL-Library.Sublist"
begin

section \<open>Python values, exceptions and text\<close>

text \<open>
  The adapters are Python functions that return text.  A Python exception is a value of
  type \<open>exn\<close>: its class and the message \<open>str(e)\<close>.  A function that may raise
  returns \<open>exn + 'a\<close>, with \<open>Inl\<close> for the raised exception.  Strings are HOL
  strings, so a character is a code point below 256; among these the only decimal digits
  (the characters Python's \<open>\d\<close> and \<open>int\<close> accept) are \<open>0\<close> to \<open>9\<close>.
\<close>

datatype exn_class =
    ValueError | TypeError | OverflowError | KeyError | AttributeError
  | FileNotFoundError | ImportError | OSError | ConnectionError | RuntimeError

datatype exn = Exn exn_class string

fun exn_cls :: "exn \<Rightarrow> exn_class" where
  "exn_cls (Exn c m) = c"

text \<open>\<open>str(e)\<close>\<close>

fun str_exn :: "exn \<Rightarrow> string" where
  "str_exn (Exn c m) = m"

text \<open>An argument value of an invocation (\<open>dict[str, Any]\<close>, decoded from JSON).\<close>

datatype pyval = PStr string | PInt int | PNone

type_synonym arguments = "string \<rightharpoonup> pyval"

text \<open>\<open>arguments.get(key, default)\<close>\<close>

definition dict_get :: "arguments \<Rightarrow> string \<Rightarrow> pyval \<Rightarrow> pyval" where
  "dict_get arguments key dflt = (case arguments key of None \<Rightarrow> dflt | Some v \<Rightarrow> v)"

datatype TextContent = TextContent (tc_type: string) (tc_text: string)

subsection \<open>Decimal text of integers\<close>

definition digit_char :: "nat \<Rightarrow> char" where
  "digit_char n = ''0123456789'' ! n"

definition digit_val :: "char \<Rightarrow> nat option" where
  "digit_val c = map_of (zip ''0123456789'' [0, 1, 2, 3, 4, 5, 6, 7, 8, 9]) c"

definition is_digit :: "char \<Rightarrow> bool" where
  "is_digit c = (digit_val c \<noteq> None)"

text \<open>\<open>str(n)\<close> for \<open>n \<ge> 0\<close>\<close>

function str_nat :: "nat \<Rightarrow> string" where
  "str_nat n = (if n < 10 then [digit_char n] else str_nat (n div 10) @ [digit_char (n mod 10)])"
  by pat_completeness auto
termination
  by (relation "measure id") auto

declare str_nat.simps [simp del]

text \<open>\<open>str(i)\<close>, also what an f-string writes for an \<open>int\<close>\<close>

definition str_int :: "int \<Rightarrow> string" where
  "str_int i = (if i < 0 then CHR ''-'' # str_nat (nat (- i)) else str_nat (nat i))"

text \<open>\<open>s.zfill(w)\<close> for a string of digits: the zero padding of \<open>%02d\<close> and \<open>%04d\<close>\<close>

definition zfill :: "nat \<Rightarrow> string \<Rightarrow> string" where
  "zfill w s = replicate (w - length s) CHR ''0'' @ s"

text \<open>\<open>int(s)\<close> on a string of decimal digits\<close>

definition int_of_digits :: "string \<Rightarrow> int" where
  "int_of_digits s = int (foldl (\<lambda>a c. 10 * a + the (digit_val c)) 0 s)"

section \<open>The datetime library\<close>

text \<open>
  The calendar adapter calls \<open>datetime.strptime\<close>, \<open>strftime\<close>, \<open>timedelta\<close> and
  the arithmetic of \<open>datetime\<close>.  They are the standard library's, modelled here after
  CPython's \<open>_pydatetime\<close> and \<open>_strptime\<close>: a date is a year, a month and a day, and
  its proleptic Gregorian ordinal numbers the days from 0001-01-01 (ordinal 1) to
  9999-12-31 (ordinal 3652059).
\<close>

record datetime =
  year :: int
  month :: int
  day :: int
  hour :: int
  minute :: int
  second :: int

definition MAXORDINAL :: int where
  "MAXORDINAL = 3652059"

definition is_leap :: "int \<Rightarrow> bool" where
  "is_leap y = (y mod 4 = 0 \<and> (y mod 100 \<noteq> 0 \<or> y mod 400 = 0))"

definition DAYS_IN_MONTH :: "int list" where
  "DAYS_IN_MONTH = [-1, 31, 28, 31, 30, 31, 30, 31, 31, 30, 31, 30, 31]"

definition DAYS_BEFORE_MONTH :: "int list" where
  "DAYS_BEFORE_MONTH = [-1, 0, 31, 59, 90, 120, 151, 181, 212, 243, 273, 304, 334]"

definition days_before_year :: "int \<Rightarrow> int" where
  "days_before_year y = (let y1 = y - 1 in y1 * 365 + y1 div 4 - y1 div 100 + y1 div 400)"

definition days_in_month :: "int \<Rightarrow> int \<Rightarrow> int" where
  "days_in_month y m = (if m = 2 \<and> is_leap y then 29 else DAYS_IN_MONTH ! nat m)"

definition days_before_month :: "int \<Rightarrow> int \<Rightarrow> int" where
  "days_before_month y m = DAYS_BEFORE_MONTH ! nat m + (if m > 2 \<and> is_leap y then 1 else 0)"

definition ymd2ord :: "int \<Rightarrow> int \<Rightarrow> int \<Rightarrow> int" where
  "ymd2ord y m d = days_before_year y + days_before_month y m + d"

definition DI400Y :: int where "DI400Y = 146097"
definition DI100Y :: int where "DI100Y = 36524"
definition DI4Y :: int where "DI4Y = 1461"

text \<open>The month and day of the \<open>n\<close>-th day (from 0) of a year, the tail of \<open>_ord2ymd\<close>.\<close>

definition month_day :: "bool \<Rightarrow> int \<Rightarrow> int \<times> int" where
  "month_day leapyear n =
     (let month = (n + 50) div 32;
          preceding = DAYS_BEFORE_MONTH ! nat month + (if month > 2 \<and> leapyear then 1 else 0)
      in if preceding > n
         then (let month' = month - 1;
                   preceding' = preceding - (DAYS_IN_MONTH ! nat month'
                                  + (if month' = 2 \<and> leapyear then 1 else 0))
               in (month', n - preceding' + 1))
         else (month, n - preceding + 1))"

definition ord2ymd :: "int \<Rightarrow> int \<times> int \<times> int" where
  "ord2ymd n0 =
     (let n = n0 - 1;
          n400 = n div DI400Y; n = n mod DI400Y;
          n100 = n div DI100Y; n = n mod DI100Y;
          n4 = n div DI4Y; n = n mod DI4Y;
          n1 = n div 365; n = n mod 365;
          y = n400 * 400 + 1 + n100 * 100 + n4 * 4 + n1
      in if n1 = 4 \<or> n100 = 4 then (y - 1, 12, 31)
         else (let leapyear = (n1 = 3 \<and> (n4 \<noteq> 24 \<or> n100 = 3));
                   (m, d) = month_day leapyear n
               in (y, m, d)))"

definition toordinal :: "datetime \<Rightarrow> int" where
  "toordinal dt = ymd2ord (year dt) (month dt) (day dt)"

text \<open>\<open>weekday()\<close>: Monday is 0.\<close>

definition weekday :: "datetime \<Rightarrow> int" where
  "weekday dt = (toordinal dt + 6) mod 7"

text \<open>
  \<open>timedelta(days=n)\<close>: the constructor refuses a magnitude above 999999999 days.
  A \<open>timedelta\<close> is kept as its normalised \<open>days\<close> and \<open>seconds\<close>.
\<close>

definition timedelta :: "int \<Rightarrow> exn + int \<times> int" where
  "timedelta days =
     (if \<bar>days\<bar> > 999999999
      then Inl (Exn OverflowError (''days='' @ str_int days @ ''; must have magnitude <= 999999999''))
      else Inr (days, 0))"

definition seconds_of_day :: "datetime \<Rightarrow> int" where
  "seconds_of_day dt = hour dt * 3600 + minute dt * 60 + second dt"

text \<open>\<open>dt + delta\<close> (and \<open>dt - delta\<close> with the delta negated)\<close>

definition datetime_add :: "datetime \<Rightarrow> int \<times> int \<Rightarrow> exn + datetime" where
  "datetime_add dt delta =
     (let total = seconds_of_day dt + snd delta;
          days = toordinal dt + fst delta + total div 86400;
          rem = total mod 86400
      in if 0 < days \<and> days \<le> MAXORDINAL
         then (let (y, m, d) = ord2ymd days
               in Inr \<lparr>year = y, month = m, day = d,
                        hour = rem div 3600, minute = rem mod 3600 div 60, second = rem mod 60\<rparr>)
         else Inl (Exn OverflowError ''date value out of range''))"

text \<open>\<open>(a - b).days\<close> for two datetimes\<close>

definition datetime_sub_days :: "datetime \<Rightarrow> datetime \<Rightarrow> int" where
  "datetime_sub_days a b =
     toordinal a - toordinal b + (seconds_of_day a - seconds_of_day b) div 86400"

subsection \<open>strptime\<close>

text \<open>
  \<open>datetime.strptime(s, "%Y-%m-%d")\<close> matches \<open>s\<close> from its start against the regular
  expression built from the format, a year of four digits, a month \<open>1[0-2]|0[1-9]|[1-9]\<close>
  and a day \<open>3[0-1]|[1-2]\d|0[1-9]|[1-9]| [1-9]\<close> with a hyphen between them,
  raises \<open>ValueError\<close> when there is no match or when text remains after the match,
  and then builds the date, which raises \<open>ValueError\<close> for the year 0 and for a day
  beyond the month's length.  Each directive is a function that takes the alternatives in
  the expression's order and returns the number and the rest of the text.  The directive
  that a literal follows never needs a later alternative: where a two-character
  alternative matched and the literal does not follow, the one-character alternative is
  followed by a digit, not by the literal.  So a month or a day of one digit is accepted.
\<close>

definition digit19 :: "char \<Rightarrow> bool" where
  "digit19 c = (is_digit c \<and> c \<noteq> CHR ''0'')"

fun parse_Y :: "string \<Rightarrow> (int \<times> string) option" where
  "parse_Y (c1 # c2 # c3 # c4 # rest) =
     (if is_digit c1 \<and> is_digit c2 \<and> is_digit c3 \<and> is_digit c4
      then Some (int_of_digits [c1, c2, c3, c4], rest) else None)"
| "parse_Y s = None"

fun parse_m :: "string \<Rightarrow> (int \<times> string) option" where
  "parse_m (c1 # c2 # rest) =
     (if c1 = CHR ''1'' \<and> c2 \<in> set ''012'' then Some (int_of_digits [c1, c2], rest)
      else if c1 = CHR ''0'' \<and> digit19 c2 then Some (int_of_digits [c1, c2], rest)
      else if digit19 c1 then Some (int_of_digits [c1], c2 # rest)
      else None)"
| "parse_m [c1] = (if digit19 c1 then Some (int_of_digits [c1], []) else None)"
| "parse_m [] = None"

fun parse_d :: "string \<Rightarrow> (int \<times> string) option" where
  "parse_d (c1 # c2 # rest) =
     (if c1 = CHR ''3'' \<and> c2 \<in> set ''01'' then Some (int_of_digits [c1, c2], rest)
      else if c1 \<in> set ''12'' \<and> is_digit c2 then Some (int_of_digits [c1, c2], rest)
      else if c1 = CHR ''0'' \<and> digit19 c2 then Some (int_of_digits [c1, c2], rest)
      else if digit19 c1 then Some (int_of_digits [c1], c2 # rest)
      else if c1 = CHR '' '' \<and> digit19 c2 then Some (int_of_digits [c2], rest)
      else None)"
| "parse_d [c1] = (if digit19 c1 then Some (int_of_digits [c1], []) else None)"
| "parse_d [] = None"

text \<open>\<open>%H\<close> is \<open>2[0-3]|[0-1]\d|\d\<close> and \<open>%M\<close> is \<open>[0-5]\d|\d\<close>.\<close>

fun parse_H :: "string \<Rightarrow> (int \<times> string) option" where
  "parse_H (c1 # c2 # rest) =
     (if c1 = CHR ''2'' \<and> c2 \<in> set ''0123'' then Some (int_of_digits [c1, c2], rest)
      else if c1 \<in> set ''01'' \<and> is_digit c2 then Some (int_of_digits [c1, c2], rest)
      else if is_digit c1 then Some (int_of_digits [c1], c2 # rest)
      else None)"
| "parse_H [c1] = (if is_digit c1 then Some (int_of_digits [c1], []) else None)"
| "parse_H [] = None"

fun parse_M :: "string \<Rightarrow> (int \<times> string) option" where
  "parse_M (c1 # c2 # rest) =
     (if c1 \<in> set ''012345'' \<and> is_digit c2 then Some (int_of_digits [c1, c2], rest)
      else if is_digit c1 then Some (int_of_digits [c1], c2 # rest)
      else None)"
| "parse_M [c1] = (if is_digit c1 then Some (int_of_digits [c1], []) else None)"
| "parse_M [] = None"

fun expect :: "char \<Rightarrow> string \<Rightarrow> string option" where
  "expect c (x # rest) = (if x = c then Some rest else None)"
| "expect c [] = None"

text \<open>The match of the whole expression: the three numbers and the text left over.\<close>

definition match_ymd :: "string \<Rightarrow> (int \<times> int \<times> int \<times> string) option" where
  "match_ymd s =
     (case parse_Y s of None \<Rightarrow> None
      | Some (y, s1) \<Rightarrow>
     (case expect CHR ''-'' s1 of None \<Rightarrow> None
      | Some s2 \<Rightarrow>
     (case parse_m s2 of None \<Rightarrow> None
      | Some (m, s3) \<Rightarrow>
     (case expect CHR ''-'' s3 of None \<Rightarrow> None
      | Some s4 \<Rightarrow>
     (case parse_d s4 of None \<Rightarrow> None
      | Some (d, s5) \<Rightarrow> Some (y, m, d, s5))))))"

definition match_HM :: "string \<Rightarrow> (int \<times> int \<times> string) option" where
  "match_HM s =
     (case parse_H s of None \<Rightarrow> None
      | Some (h, s1) \<Rightarrow>
     (case expect CHR '':'' s1 of None \<Rightarrow> None
      | Some s2 \<Rightarrow>
     (case parse_M s2 of None \<Rightarrow> None
      | Some (mi, s3) \<Rightarrow> Some (h, mi, s3))))"

text \<open>\<open>datetime.strptime(s, "%Y-%m-%d")\<close>.  The handlers never show the message of the
  \<open>ValueError\<close>; it is kept short here.\<close>

definition strptime_ymd :: "string \<Rightarrow> exn + datetime" where
  "strptime_ymd s =
     (case match_ymd s of
        None \<Rightarrow> Inl (Exn ValueError ''time data does not match format'')
      | Some (y, m, d, rest) \<Rightarrow>
          if rest \<noteq> [] then Inl (Exn ValueError (''unconverted data remains: '' @ rest))
          else if y < 1 then Inl (Exn ValueError ''year 0 is out of range'')
          else if d > days_in_month y m then Inl (Exn ValueError ''day is out of range for month'')
          else Inr \<lparr>year = y, month = m, day = d, hour = 0, minute = 0, second = 0\<rparr>)"

text \<open>\<open>datetime.strptime(s, "%H:%M")\<close>: the date defaults to 1900-01-01.\<close>

definition strptime_HM :: "string \<Rightarrow> exn + datetime" where
  "strptime_HM s =
     (case match_HM s of
        None \<Rightarrow> Inl (Exn ValueError ''time data does not match format'')
      | Some (h, mi, rest) \<Rightarrow>
          if rest \<noteq> [] then Inl (Exn ValueError (''unconverted data remains: '' @ rest))
          else Inr \<lparr>year = 1900, month = 1, day = 1, hour = h, minute = mi, second = 0\<rparr>)"

subsection \<open>strftime\<close>

text \<open>
  \<open>%m\<close>, \<open>%d\<close>, \<open>%H\<close>, \<open>%M\<close> and \<open>%S\<close> write two digits.  \<open>%Y\<close> is the platform's:
  the C library pads the year to four digits on some platforms and writes it unpadded
  on others, where the year 999 reads \<open>999\<close>.  The flag \<open>pad\<close> says which.
\<close>

definition fmt2 :: "int \<Rightarrow> string" where
  "fmt2 i = zfill 2 (str_int i)"

definition fmt_Y :: "bool \<Rightarrow> int \<Rightarrow> string" where
  "fmt_Y pad y = (if pad then zfill 4 (str_int y) else str_int y)"

text \<open>\<open>dt.strftime("%Y-%m-%d")\<close>\<close>

definition strftime_ymd :: "bool \<Rightarrow> datetime \<Rightarrow> string" where
  "strftime_ymd pad dt = fmt_Y pad (year dt) @ ''-'' @ fmt2 (month dt) @ ''-'' @ fmt2 (day dt)"

text \<open>\<open>dt.strftime("%Y-%m-%d %H:%M:%S")\<close>\<close>

definition strftime_ymd_HMS :: "bool \<Rightarrow> datetime \<Rightarrow> string" where
  "strftime_ymd_HMS pad dt =
     strftime_ymd pad dt @ '' '' @ fmt2 (hour dt) @ '':'' @ fmt2 (minute dt) @ '':'' @ fmt2 (second dt)"

text \<open>\<open>%A\<close> and \<open>%B\<close> in the C locale\<close>

definition day_names :: "string list" where
  "day_names = [''Monday'', ''Tuesday'', ''Wednesday'', ''Thursday'', ''Friday'', ''Saturday'',
     ''Sunday'']"

definition month_names :: "string list" where
  "month_names = ['''', ''January'', ''February'', ''March'', ''April'', ''May'', ''June'', ''July'',
     ''August'', ''September'', ''October'', ''November'', ''December'']"

definition strftime_A :: "datetime \<Rightarrow> string" where
  "strftime_A dt = day_names ! nat (weekday dt)"

definition strftime_B :: "datetime \<Rightarrow> string" where
  "strftime_B dt = month_names ! nat (month dt)"

section \<open>Control flow of the handlers\<close>

text \<open>Sequencing of calls that may raise: the first exception ends the block.\<close>

definition ebind :: "exn + 'a \<Rightarrow> ('a \<Rightarrow> exn + 'b) \<Rightarrow> exn + 'b" where
  "ebind r f = (case r of Inl e \<Rightarrow> Inl e | Inr v \<Rightarrow> f v)"

text \<open>\<open>try: body  except ValueError: return h\<close>: any other exception leaves the
  function.\<close>

definition except_ValueError :: "exn + 'a \<Rightarrow> 'a \<Rightarrow> exn + 'a" where
  "except_ValueError body h =
     (case body of
        Inl e \<Rightarrow> if exn_cls e = ValueError then Inr h else Inl e
      | Inr v \<Rightarrow> Inr v)"

text \<open>\<open>try: body  except Exception as e: return h(e)\<close>: every exception is caught.\<close>

definition except_Exception :: "exn + 'a \<Rightarrow> (exn \<Rightarrow> 'a) \<Rightarrow> 'a" where
  "except_Exception body h = (case body of Inl e \<Rightarrow> h e | Inr v \<Rightarrow> v)"

section \<open>Calendar MCP Server: the tool functions\<close>


definition add_days_to_date :: "bool \<Rightarrow> string \<Rightarrow> int \<Rightarrow> exn + string" where
  "add_days_to_date pad date_string days =
     except_ValueError
       (ebind (strptime_ymd date_string) (\<lambda>date_obj.
        ebind (timedelta days) (\<lambda>delta.
        ebind (datetime_add date_obj delta) (\<lambda>new_date.
          Inr (strftime_ymd pad new_date)))))
       (''Invalid date format: '' @ date_string @ ''. Please use YYYY-MM-DD format.'')"

definition get_days_between_dates :: "string \<Rightarrow> string \<Rightarrow> exn + string" where
  "get_days_between_dates start_date end_date =
     except_ValueError
       (ebind (strptime_ymd start_date) (\<lambda>start_obj.
        ebind (strptime_ymd end_date) (\<lambda>end_obj.
          let diff_days = datetime_sub_days end_obj start_obj
          in Inr (''Days between '' @ start_date @ '' and '' @ end_date @ '': '' @ str_int diff_days))))
       ''Invalid date format. Please use YYYY-MM-DD format for both dates.''"


section \<open>Calendar MCP Server: the registry and the dispatcher\<close>

text \<open>
  The server with \<open>@server.list_tools()\<close> and \<open>@server.call_tool()\<close>.  A \<open>Tool\<close> has a
  name, a description and an input schema: the properties (name, type, description) and
  the names of the required ones.
\<close>

record Tool =
  tool_name :: string
  tool_description :: string
  tool_properties :: "(string \<times> string \<times> string) list"
  tool_required :: "string list"

definition calendar_list_tools :: "Tool list" where
  "calendar_list_tools =
    [\<lparr>tool_name = ''get_current_date'', tool_description = ''Get the current date and time'',
      tool_properties = [], tool_required = []\<rparr>,
     \<lparr>tool_name = ''get_today'', tool_description = ''Get today's date'',
      tool_properties = [], tool_required = []\<rparr>,
     \<lparr>tool_name = ''get_yesterday'', tool_description = ''Get yesterday's date'',
      tool_properties = [], tool_required = []\<rparr>,
     \<lparr>tool_name = ''get_tomorrow'', tool_description = ''Get tomorrow's date'',
      tool_properties = [], tool_required = []\<rparr>,
     \<lparr>tool_name = ''get_date_info'', tool_description = ''Get information about a specific date'',
      tool_properties = [(''date_string'', ''string'', ''Date in YYYY-MM-DD format'')],
      tool_required = [''date_string'']\<rparr>,
     \<lparr>tool_name = ''add_days_to_date'', tool_description = ''Add or subtract days from a given date'',
      tool_properties = [(''date_string'', ''string'', ''Date in YYYY-MM-DD format''),
                         (''days'', ''integer'', ''Number of days to add (negative to subtract)'')],
      tool_required = [''date_string'', ''days'']\<rparr>,
     \<lparr>tool_name = ''get_days_between_dates'',
      tool_description = ''Calculate the number of days between two dates'',
      tool_properties = [(''start_date'', ''string'', ''Start date in YYYY-MM-DD format''),
                         (''end_date'', ''string'', ''End date in YYYY-MM-DD format'')],
      tool_required = [''start_date'', ''end_date'']\<rparr>,
     \<lparr>tool_name = ''schedule_reminder'', tool_description = ''Schedule a calendar reminder'',
      tool_properties = [(''title'', ''string'', ''Title of the reminder''),
                         (''date'', ''string'', ''Date in YYYY-MM-DD format''),
                         (''time'', ''string'', ''Time in HH:MM format'')],
      tool_required = [''title'', ''date'', ''time'']\<rparr>]"

text \<open>
  The arguments are whatever the caller sent.  \<open>strptime\<close> raises \<open>TypeError\<close> on a
  value that is not a string, \<open>timedelta\<close> on one that is not a number; an f-string
  writes \<open>str(v)\<close>.
\<close>

fun type_name :: "pyval \<Rightarrow> string" where
  "type_name (PStr s) = ''str''"
| "type_name (PInt i) = ''int''"
| "type_name PNone = ''NoneType''"

fun py_format :: "pyval \<Rightarrow> string" where
  "py_format (PStr s) = s"
| "py_format (PInt i) = str_int i"
| "py_format PNone = ''None''"

fun py_strptime_ymd :: "pyval \<Rightarrow> exn + datetime" where
  "py_strptime_ymd (PStr s) = strptime_ymd s"
| "py_strptime_ymd v = Inl (Exn TypeError (''strptime() argument 1 must be str, not '' @ type_name v))"

fun py_strptime_HM :: "pyval \<Rightarrow> exn + datetime" where
  "py_strptime_HM (PStr s) = strptime_HM s"
| "py_strptime_HM v = Inl (Exn TypeError (''strptime() argument 1 must be str, not '' @ type_name v))"

fun py_timedelta :: "pyval \<Rightarrow> exn + int \<times> int" where
  "py_timedelta (PInt i) = timedelta i"
| "py_timedelta v =
     Inl (Exn TypeError (''unsupported type for timedelta days component: '' @ type_name v))"

definition text_content :: "string \<Rightarrow> TextContent list" where
  "text_content t = [TextContent ''text'' t]"

text \<open>\<open>call_tool(name, arguments)\<close>; \<open>now\<close> is what \<open>datetime.now()\<close> returns.\<close>

definition calendar_call_tool ::
  "bool \<Rightarrow> datetime \<Rightarrow> string \<Rightarrow> arguments \<Rightarrow> exn + TextContent list" where
  "calendar_call_tool pad now nm arguments =
    (if nm = ''get_current_date'' then
       Inr (text_content (strftime_ymd_HMS pad now))
     else if nm = ''get_today'' then
       Inr (text_content (strftime_ymd pad now))
     else if nm = ''get_yesterday'' then
       ebind (timedelta 1) (\<lambda>delta.
       ebind (datetime_add now (- fst delta, - snd delta)) (\<lambda>yesterday.
         Inr (text_content (strftime_ymd pad yesterday))))
     else if nm = ''get_tomorrow'' then
       ebind (timedelta 1) (\<lambda>delta.
       ebind (datetime_add now delta) (\<lambda>tomorrow.
         Inr (text_content (strftime_ymd pad tomorrow))))
     else if nm = ''get_date_info'' then
       (let date_string = dict_get arguments ''date_string'' (PStr '''')
        in except_ValueError
             (ebind (py_strptime_ymd date_string) (\<lambda>date_obj.
                let day_of_week = strftime_A date_obj;
                    month_name = strftime_B date_obj;
                    d = day date_obj;
                    y = year date_obj;
                    result = ''Date: '' @ py_format date_string @ '', Day: '' @ day_of_week
                      @ '', Month: '' @ month_name @ '', Day: '' @ str_int d @ '', Year: '' @ str_int y
                in Inr (text_content result)))
             (text_content (''Invalid date format: '' @ py_format date_string
                            @ ''. Please use YYYY-MM-DD format.'')))
     else if nm = ''add_days_to_date'' then
       (let date_string = dict_get arguments ''date_string'' (PStr '''');
            days = dict_get arguments ''days'' (PInt 0)
        in except_ValueError
             (ebind (py_strptime_ymd date_string) (\<lambda>date_obj.
              ebind (py_timedelta days) (\<lambda>delta.
              ebind (datetime_add date_obj delta) (\<lambda>new_date.
                Inr (text_content (strftime_ymd pad new_date))))))
             (text_content (''Invalid date format: '' @ py_format date_string
                            @ ''. Please use YYYY-MM-DD format.'')))
     else if nm = ''get_days_between_dates'' then
       (let start_date = dict_get arguments ''start_date'' (PStr '''');
            end_date = dict_get arguments ''end_date'' (PStr '''')
        in except_ValueError
             (ebind (py_strptime_ymd start_date) (\<lambda>start_obj.
              ebind (py_strptime_ymd end_date) (\<lambda>end_obj.
                let diff_days = datetime_sub_days end_obj start_obj
                in Inr (text_content (''Days between '' @ py_format start_date @ '' and ''
                          @ py_format end_date @ '': '' @ str_int diff_days)))))
             (text_content ''Invalid date format. Please use YYYY-MM-DD format for both dates.''))
     else if nm = ''schedule_reminder'' then
       (let title = dict_get arguments ''title'' (PStr '''');
            date = dict_get arguments ''date'' (PStr '''');
            time = dict_get arguments ''time'' (PStr '''')
        in except_ValueError
             (ebind (py_strptime_ymd date) (\<lambda>_.
              ebind (py_strptime_HM time) (\<lambda>_.
                let result = ''Reminder scheduled: '' @ [CHR 0x27] @ py_format title @ [CHR 0x27]
                      @ '' on '' @ py_format date @ '' at '' @ py_format time
                in Inr (text_content result))))
             (text_content
                ''Invalid date or time format. Use YYYY-MM-DD for date and HH:MM for time.''))
     else
       Inr (text_content (''Unknown tool: '' @ nm)))"

subsection \<open>Calendar order\<close>

text \<open>A date the constructor accepts, and the order of the calendar on dates.\<close>

definition valid_date :: "datetime \<Rightarrow> bool" where
  "valid_date dt = (1 \<le> month dt \<and> month dt \<le> 12 \<and> 1 \<le> day dt
                    \<and> day dt \<le> days_in_month (year dt) (month dt))"

definition date_before :: "datetime \<Rightarrow> datetime \<Rightarrow> bool" where
  "date_before a b =
     (year a < year b \<or> (year a = year b \<and>
        (month a < month b \<or> (month a = month b \<and> day a < day b))))"


section \<open>Handlers that call the outside world\<close>

text \<open>
  A handler that talks to a vendor is a computation over the list of the external
  operations it has performed so far: it returns a value or the raised exception, and
  the list extended by what it performed.  What each operation answers is given by the
  environment of the handler.  The calls of \<open>ctx.info\<close> and \<open>ctx.error\<close> write log
  lines for the client and are left out.  A character outside Latin-1 in a text template
  is written as its UTF-8 bytes.
\<close>

type_synonym ('ev, 'a) io = "'ev list \<Rightarrow> (exn + 'a) \<times> 'ev list"

definition io_return :: "'a \<Rightarrow> ('ev, 'a) io" where
  "io_return v = (\<lambda>tr. (Inr v, tr))"

definition io_raise :: "exn \<Rightarrow> ('ev, 'a) io" where
  "io_raise e = (\<lambda>tr. (Inl e, tr))"

definition io_bind :: "('ev, 'a) io \<Rightarrow> ('a \<Rightarrow> ('ev, 'b) io) \<Rightarrow> ('ev, 'b) io" where
  "io_bind m f = (\<lambda>tr. case m tr of (Inl e, tr') \<Rightarrow> (Inl e, tr') | (Inr v, tr') \<Rightarrow> f v tr')"

text \<open>An external operation \<open>ev\<close> whose outcome is \<open>r\<close>.\<close>

definition io_call :: "'ev \<Rightarrow> exn + 'a \<Rightarrow> ('ev, 'a) io" where
  "io_call ev r = (\<lambda>tr. (r, tr @ [ev]))"

text \<open>A step without external effect that may raise.\<close>

definition io_pure :: "exn + 'a \<Rightarrow> ('ev, 'a) io" where
  "io_pure r = (\<lambda>tr. (r, tr))"

text \<open>\<open>try: m  except Exception as e: h(e)\<close>\<close>

definition io_try :: "('ev, 'a) io \<Rightarrow> (exn \<Rightarrow> ('ev, 'a) io) \<Rightarrow> ('ev, 'a) io" where
  "io_try m h = (\<lambda>tr. case m tr of (Inl e, tr') \<Rightarrow> h e tr' | (Inr v, tr') \<Rightarrow> (Inr v, tr'))"

text \<open>\<open>try: m  finally: c\<close>: the clean-up runs on every way out; an exception of the clean-up
  replaces the outcome of the block.\<close>

definition io_finally :: "('ev, 'a) io \<Rightarrow> ('ev, unit) io \<Rightarrow> ('ev, 'a) io" where
  "io_finally m c =
     (\<lambda>tr. case m tr of (r, tr') \<Rightarrow>
              (case c tr' of (Inl e, tr'') \<Rightarrow> (Inl e, tr'') | (Inr u, tr'') \<Rightarrow> (r, tr'')))"

text \<open>\<open>sep.join(xs)\<close>\<close>

fun join :: "string \<Rightarrow> string list \<Rightarrow> string" where
  "join sep [] = []"
| "join sep [x] = x"
| "join sep (x # y # xs) = x @ sep @ join sep (y # xs)"

text \<open>\<open>not v\<close> for the value of an environment variable\<close>

fun unset :: "string option \<Rightarrow> bool" where
  "unset None = True"
| "unset (Some s) = (s = [])"

text \<open>\<open>v.startswith(p)\<close>: only a string has the method.\<close>

fun py_startswith :: "pyval \<Rightarrow> string \<Rightarrow> exn + bool" where
  "py_startswith (PStr s) p = Inr (prefix p s)"
| "py_startswith v p =
     Inl (Exn AttributeError ([CHR 0x27] @ type_name v @ [CHR 0x27]
            @ '' object has no attribute '' @ [CHR 0x27] @ ''startswith'' @ [CHR 0x27]))"

section \<open>Dropbox MCP Server\<close>

datatype metadata =
    FileMetadata (md_name: string) (md_path_display: string) (md_size: int)
      (md_client_modified: string) (md_content_hash: string)
  | FolderMetadata (md_name: string) (md_path_display: string)
  | OtherMetadata (md_type: string)

record account =
  display_name :: string
  email :: string
  account_type :: string

text \<open>The operations a Dropbox handler performs: the calls of the SDK with the path they
  are given, and the reads and writes of local files.\<close>

datatype dropbox_op =
    FilesUpload string pyval
  | FilesDownload pyval
  | FilesListFolder pyval
  | FilesCreateFolderV2 pyval
  | FilesDeleteV2 pyval
  | FilesGetMetadata pyval
  | SharingListSharedLinks pyval
  | SharingCreateSharedLink pyval
  | FilesSearchV2 pyval
  | UsersGetCurrentAccount
  | UsersGetSpaceUsage
  | ReadLocalFile pyval
  | WriteLocalFile pyval string

text \<open>The Dropbox path a call of the SDK is given.\<close>

fun vendor_path :: "dropbox_op \<Rightarrow> pyval option" where
  "vendor_path (FilesUpload c p) = Some p"
| "vendor_path (FilesDownload p) = Some p"
| "vendor_path (FilesListFolder p) = Some p"
| "vendor_path (FilesCreateFolderV2 p) = Some p"
| "vendor_path (FilesDeleteV2 p) = Some p"
| "vendor_path (FilesGetMetadata p) = Some p"
| "vendor_path (SharingListSharedLinks p) = Some p"
| "vendor_path (SharingCreateSharedLink p) = Some p"
| "vendor_path ev = None"

text \<open>What the process environment, the local disk and Dropbox answer.  \<open>fmt_gb\<close> is the
  float formatting \<open>f"{n / (1024**3):.2f}"\<close> of a number of bytes.\<close>

record dropbox_env =
  env_access_token :: "string option"
  env_dropbox_installed :: bool
  read_local :: "pyval \<Rightarrow> exn + string"
  write_local :: "pyval \<Rightarrow> string \<Rightarrow> exn + unit"
  files_upload :: "string \<Rightarrow> pyval \<Rightarrow> exn + unit"
  files_download :: "pyval \<Rightarrow> exn + string"
  files_list_folder :: "pyval \<Rightarrow> exn + metadata list"
  files_create_folder_v2 :: "pyval \<Rightarrow> exn + unit"
  files_delete_v2 :: "pyval \<Rightarrow> exn + unit"
  files_get_metadata :: "pyval \<Rightarrow> exn + metadata"
  sharing_list_shared_links :: "pyval \<Rightarrow> exn + string list"
  sharing_create_shared_link_with_settings :: "pyval \<Rightarrow> exn + string"
  files_search_v2 :: "pyval \<Rightarrow> exn + metadata list"
  users_get_current_account :: "exn + account"
  users_get_space_usage :: "exn + int \<times> int"
  fmt_gb :: "int \<Rightarrow> string"

definition emoji_file :: string where
  "emoji_file = [CHR 0xF0, CHR 0x9F, CHR 0x93, CHR 0x84]"

definition emoji_folder :: string where
  "emoji_folder = [CHR 0xF0, CHR 0x9F, CHR 0x93, CHR 0x81]"

text \<open>\<open>get_dropbox_client()\<close>, with the message of the server it belongs to.\<close>

definition get_dropbox_client :: "string \<Rightarrow> dropbox_env \<Rightarrow> (dropbox_op, unit) io" where
  "get_dropbox_client token_msg env =
     (if unset (env_access_token env) then io_raise (Exn ValueError token_msg)
      else if \<not> env_dropbox_installed env
        then io_raise (Exn ImportError ''dropbox package not installed. Install with: pip install dropbox'')
      else io_return ())"

text \<open>The two loops of \<open>list_folder\<close> and the loop of \<open>search_files\<close>.\<close>

fun folder_lines :: "metadata list \<Rightarrow> string list" where
  "folder_lines [] = []"
| "folder_lines (FolderMetadata n p # es) = (emoji_folder @ '' '' @ n @ ''/'') # folder_lines es"
| "folder_lines (e # es) = folder_lines es"

fun file_lines :: "metadata list \<Rightarrow> string list" where
  "file_lines [] = []"
| "file_lines (FileMetadata n p sz cm ch # es) =
     (emoji_file @ '' '' @ n @ '' ('' @ str_int sz @ '' bytes)'') # file_lines es"
| "file_lines (e # es) = file_lines es"

fun match_lines :: "metadata list \<Rightarrow> string list" where
  "match_lines [] = []"
| "match_lines (FileMetadata n p sz cm ch # es) =
     (emoji_file @ '' '' @ p @ '' ('' @ str_int sz @ '' bytes)'') # match_lines es"
| "match_lines (FolderMetadata n p # es) = (emoji_folder @ '' '' @ p @ ''/'') # match_lines es"
| "match_lines (e # es) = match_lines es"

definition list_folder_output :: "string \<Rightarrow> metadata list \<Rightarrow> string" where
  "list_folder_output folder_path entries =
     (let files = file_lines entries;
          folders = folder_lines entries;
          output = ''Contents of '' @ (if folder_path = [] then ''/'' else folder_path) @ '':'' @ [CHR 0x0A];
          output = (if folders \<noteq> [] then output @ [CHR 0x0A] @ ''Folders:'' @ [CHR 0x0A]
                       @ join [CHR 0x0A] folders else output);
          output = (if files \<noteq> [] then output @ [CHR 0x0A] @ ''Files:'' @ [CHR 0x0A]
                       @ join [CHR 0x0A] files else output)
      in output)"

fun file_info_text :: "metadata \<Rightarrow> string" where
  "file_info_text (FileMetadata n p sz cm ch) =
     ''File Info:'' @ [CHR 0x0A] @ ''Name: '' @ n @ [CHR 0x0A] @ ''Path: '' @ p @ [CHR 0x0A]
     @ ''Size: '' @ str_int sz @ '' bytes'' @ [CHR 0x0A] @ ''Modified: '' @ cm @ [CHR 0x0A]
     @ ''Content Hash: '' @ ch"
| "file_info_text (FolderMetadata n p) =
     ''Folder Info:'' @ [CHR 0x0A] @ ''Name: '' @ n @ [CHR 0x0A] @ ''Path: '' @ p @ [CHR 0x0A]
     @ ''Type: Folder''"
| "file_info_text (OtherMetadata t) = ''Unknown file type: '' @ t"

text \<open>\<open>if not p.startswith("/"): p = "/" + p\<close>\<close>

definition add_leading_slash :: "pyval \<Rightarrow> exn + pyval" where
  "add_leading_slash p =
     ebind (py_startswith p ''/'') (\<lambda>b. if b then Inr p else Inr (PStr (''/'' @ py_format p)))"

text \<open>The normalisation of \<open>list_folder\<close>: the root is the empty path.\<close>

definition normalize_folder_path :: "pyval \<Rightarrow> exn + pyval" where
  "normalize_folder_path p =
     (if p = PStr ''/'' \<or> p = PStr '''' then Inr (PStr '''')
      else add_leading_slash p)"

definition dropbox_list_tools :: "Tool list" where
  "dropbox_list_tools =
    [\<lparr>tool_name = ''upload_file'', tool_description = ''Upload a file to Dropbox'',
      tool_properties = [(''local_path'', ''string'', ''Local file path to upload''),
                         (''dropbox_path'', ''string'', ''Destination path in Dropbox'')],
      tool_required = [''local_path'', ''dropbox_path'']\<rparr>,
     \<lparr>tool_name = ''download_file'', tool_description = ''Download a file from Dropbox'',
      tool_properties = [(''dropbox_path'', ''string'', ''Path to file in Dropbox''),
                         (''local_path'', ''string'', ''Local destination path'')],
      tool_required = [''dropbox_path'', ''local_path'']\<rparr>,
     \<lparr>tool_name = ''list_folder'', tool_description = ''List contents of a Dropbox folder'',
      tool_properties = [(''folder_path'', ''string'', ''Dropbox folder path to list'')],
      tool_required = [''folder_path'']\<rparr>,
     \<lparr>tool_name = ''create_folder'', tool_description = ''Create a new folder in Dropbox'',
      tool_properties = [(''folder_path'', ''string'', ''Path for the new folder'')],
      tool_required = [''folder_path'']\<rparr>,
     \<lparr>tool_name = ''delete_file'', tool_description = ''Delete a file or folder from Dropbox'',
      tool_properties = [(''dropbox_path'', ''string'', ''Path to file/folder to delete'')],
      tool_required = [''dropbox_path'']\<rparr>,
     \<lparr>tool_name = ''get_file_info'', tool_description = ''Get information about a file or folder'',
      tool_properties = [(''dropbox_path'', ''string'', ''Path to file/folder'')],
      tool_required = [''dropbox_path'']\<rparr>,
     \<lparr>tool_name = ''create_shared_link'',
      tool_description = ''Create a shared link for a file or folder'',
      tool_properties = [(''dropbox_path'', ''string'', ''Path to file/folder to share'')],
      tool_required = [''dropbox_path'']\<rparr>,
     \<lparr>tool_name = ''search_files'', tool_description = ''Search for files in Dropbox'',
      tool_properties = [(''query'', ''string'', ''Search query'')],
      tool_required = [''query'']\<rparr>,
     \<lparr>tool_name = ''get_account_info'', tool_description = ''Get Dropbox account information'',
      tool_properties = [], tool_required = []\<rparr>]"

definition render_token_msg :: string where
  "render_token_msg = ''DROPBOX_ACCESS_TOKEN environment variable not set. Please set this in your Render environment variables.''"

text \<open>The text an \<open>except Exception as e\<close> clause returns: a fixed prefix and \<open>str(e)\<close>.\<close>

definition failed_text :: "string \<Rightarrow> exn \<Rightarrow> (dropbox_op, TextContent list) io" where
  "failed_text pre e = io_return (text_content (pre @ str_exn e))"

definition account_info_text :: "dropbox_env \<Rightarrow> account \<Rightarrow> int \<Rightarrow> int \<Rightarrow> string" where
  "account_info_text env acct used allocated =
     ''Dropbox Account Info:'' @ [CHR 0x0A]
     @ ''Name: '' @ display_name acct @ [CHR 0x0A]
     @ ''Email: '' @ email acct @ [CHR 0x0A]
     @ ''Account Type: '' @ account_type acct @ [CHR 0x0A]
     @ ''Storage Used: '' @ fmt_gb env used @ '' GB'' @ [CHR 0x0A]
     @ ''Storage Total: '' @ fmt_gb env allocated @ '' GB'' @ [CHR 0x0A]
     @ ''Storage Available: '' @ fmt_gb env (allocated - used) @ '' GB''"

text \<open>The \<open>try\<close> blocks of the branches of \<open>call_tool\<close>, one per tool.\<close>

definition upload_file_block :: "dropbox_env \<Rightarrow> pyval \<Rightarrow> pyval \<Rightarrow> (dropbox_op, TextContent list) io" where
  "upload_file_block env local_path dropbox_path =
     io_bind (get_dropbox_client render_token_msg env) (\<lambda>_.
     io_bind (io_call (ReadLocalFile local_path) (read_local env local_path)) (\<lambda>file_content.
     io_bind (io_call (FilesUpload file_content dropbox_path)
                (files_upload env file_content dropbox_path)) (\<lambda>_.
     io_return (text_content (''File uploaded successfully: '' @ py_format dropbox_path)))))"

definition download_file_block :: "dropbox_env \<Rightarrow> pyval \<Rightarrow> pyval \<Rightarrow> (dropbox_op, TextContent list) io" where
  "download_file_block env dropbox_path local_path =
     io_bind (get_dropbox_client render_token_msg env) (\<lambda>_.
     io_bind (io_call (FilesDownload dropbox_path) (files_download env dropbox_path)) (\<lambda>content.
     io_bind (io_call (WriteLocalFile local_path content) (write_local env local_path content)) (\<lambda>_.
     io_return (text_content (''File downloaded successfully: '' @ py_format local_path)))))"

definition list_folder_block :: "dropbox_env \<Rightarrow> pyval \<Rightarrow> (dropbox_op, TextContent list) io" where
  "list_folder_block env folder_path =
     io_bind (get_dropbox_client render_token_msg env) (\<lambda>_.
     io_bind (io_pure (normalize_folder_path folder_path)) (\<lambda>folder_path.
     io_bind (io_call (FilesListFolder folder_path) (files_list_folder env folder_path)) (\<lambda>entries.
     io_return (text_content (list_folder_output (py_format folder_path) entries)))))"

definition create_folder_block :: "dropbox_env \<Rightarrow> pyval \<Rightarrow> (dropbox_op, TextContent list) io" where
  "create_folder_block env folder_path =
     io_bind (get_dropbox_client render_token_msg env) (\<lambda>_.
     io_bind (io_pure (add_leading_slash folder_path)) (\<lambda>folder_path.
     io_bind (io_call (FilesCreateFolderV2 folder_path) (files_create_folder_v2 env folder_path)) (\<lambda>_.
     io_return (text_content (''Folder created successfully: '' @ py_format folder_path)))))"

definition delete_file_block :: "dropbox_env \<Rightarrow> pyval \<Rightarrow> (dropbox_op, TextContent list) io" where
  "delete_file_block env dropbox_path =
     io_bind (get_dropbox_client render_token_msg env) (\<lambda>_.
     io_bind (io_pure (add_leading_slash dropbox_path)) (\<lambda>dropbox_path.
     io_bind (io_call (FilesDeleteV2 dropbox_path) (files_delete_v2 env dropbox_path)) (\<lambda>_.
     io_return (text_content (''Deleted successfully: '' @ py_format dropbox_path)))))"

definition get_file_info_block :: "dropbox_env \<Rightarrow> pyval \<Rightarrow> (dropbox_op, TextContent list) io" where
  "get_file_info_block env dropbox_path =
     io_bind (get_dropbox_client render_token_msg env) (\<lambda>_.
     io_bind (io_pure (add_leading_slash dropbox_path)) (\<lambda>dropbox_path.
     io_bind (io_call (FilesGetMetadata dropbox_path) (files_get_metadata env dropbox_path)) (\<lambda>md.
     io_return (text_content (file_info_text md)))))"

definition create_shared_link_block :: "dropbox_env \<Rightarrow> pyval \<Rightarrow> (dropbox_op, TextContent list) io" where
  "create_shared_link_block env dropbox_path =
     io_bind (get_dropbox_client render_token_msg env) (\<lambda>_.
     io_bind (io_pure (add_leading_slash dropbox_path)) (\<lambda>dropbox_path.
     io_bind
       (io_try
          (io_bind (io_call (SharingListSharedLinks dropbox_path)
                      (sharing_list_shared_links env dropbox_path)) (\<lambda>links.
           io_return (case links of [] \<Rightarrow> None | link_url # _ \<Rightarrow> Some link_url)))
          (\<lambda>e. io_return None))
       (\<lambda>existing.
          case existing of
            Some link_url \<Rightarrow> io_return (text_content (''Shared link: '' @ link_url))
          | None \<Rightarrow>
              io_bind (io_call (SharingCreateSharedLink dropbox_path)
                         (sharing_create_shared_link_with_settings env dropbox_path)) (\<lambda>link_url.
              io_return (text_content (''Shared link created: '' @ link_url))))))"

definition search_files_block :: "dropbox_env \<Rightarrow> pyval \<Rightarrow> (dropbox_op, TextContent list) io" where
  "search_files_block env query =
     io_bind (get_dropbox_client render_token_msg env) (\<lambda>_.
     io_bind (io_call (FilesSearchV2 query) (files_search_v2 env query)) (\<lambda>matches.
     if matches = []
     then io_return (text_content (''No files found matching: '' @ py_format query))
     else io_return (text_content (''Search results for '' @ [CHR 0x27] @ py_format query
            @ [CHR 0x27] @ '':'' @ [CHR 0x0A] @ join [CHR 0x0A] (match_lines (take 10 matches))))))"

definition get_account_info_block :: "dropbox_env \<Rightarrow> (dropbox_op, TextContent list) io" where
  "get_account_info_block env =
     io_bind (get_dropbox_client render_token_msg env) (\<lambda>_.
     io_bind (io_call UsersGetCurrentAccount (users_get_current_account env)) (\<lambda>acct.
     io_bind (io_call UsersGetSpaceUsage (users_get_space_usage env)) (\<lambda>(used, allocated).
     io_return (text_content (account_info_text env acct used allocated)))))"

text \<open>\<open>call_tool(name, arguments)\<close> of the Dropbox server.\<close>

definition dropbox_call_tool ::
  "dropbox_env \<Rightarrow> string \<Rightarrow> arguments \<Rightarrow> (dropbox_op, TextContent list) io" where
  "dropbox_call_tool env nm arguments =
    io_try
     (if nm = ''upload_file'' then
        (let local_path = dict_get arguments ''local_path'' (PStr '''');
             dropbox_path = dict_get arguments ''dropbox_path'' (PStr '''')
         in io_try (upload_file_block env local_path dropbox_path)
              (\<lambda>e. if exn_cls e = FileNotFoundError
                    then io_return (text_content (''Local file not found: '' @ py_format local_path))
                    else failed_text ''Upload failed: '' e))
      else if nm = ''download_file'' then
        (let dropbox_path = dict_get arguments ''dropbox_path'' (PStr '''');
             local_path = dict_get arguments ''local_path'' (PStr '''')
         in io_try (download_file_block env dropbox_path local_path)
              (failed_text ''Download failed: ''))
      else if nm = ''list_folder'' then
        (let folder_path = dict_get arguments ''folder_path'' (PStr '''')
         in io_try (list_folder_block env folder_path) (failed_text ''List folder failed: ''))
      else if nm = ''create_folder'' then
        (let folder_path = dict_get arguments ''folder_path'' (PStr '''')
         in io_try (create_folder_block env folder_path) (failed_text ''Create folder failed: ''))
      else if nm = ''delete_file'' then
        (let dropbox_path = dict_get arguments ''dropbox_path'' (PStr '''')
         in io_try (delete_file_block env dropbox_path) (failed_text ''Delete failed: ''))
      else if nm = ''get_file_info'' then
        (let dropbox_path = dict_get arguments ''dropbox_path'' (PStr '''')
         in io_try (get_file_info_block env dropbox_path) (failed_text ''Get file info failed: ''))
      else if nm = ''create_shared_link'' then
        (let dropbox_path = dict_get arguments ''dropbox_path'' (PStr '''')
         in io_try (create_shared_link_block env dropbox_path)
              (failed_text ''Create shared link failed: ''))
      else if nm = ''search_files'' then
        (let query = dict_get arguments ''query'' (PStr '''')
         in io_try (search_files_block env query) (failed_text ''Search failed: ''))
      else if nm = ''get_account_info'' then
        io_try (get_account_info_block env) (failed_text ''Get account info failed: '')
      else
        io_return (text_content (''Unknown tool: '' @ nm)))
     (failed_text ''Tool execution failed: '')"



text \<open>
  An environment to run the Dropbox handlers in: the token is set, the package is
  installed, the local file holds \<open>data\<close>, and Dropbox answers as its SDK does to paths,
  refusing one that is neither empty nor starts with a slash.
\<close>

definition path_ok :: "pyval \<Rightarrow> bool" where
  "path_ok p = (case p of PStr s \<Rightarrow> s = [] \<or> prefix ''/'' s | _ \<Rightarrow> False)"

definition check_path :: "pyval \<Rightarrow> 'a \<Rightarrow> exn + 'a" where
  "check_path p v =
     (if path_ok p then Inr v
      else Inl (Exn ValueError ([CHR 0x27] @ py_format p @ [CHR 0x27] @ '' did not match pattern'')))"

definition sample_dropbox_env :: dropbox_env where
  "sample_dropbox_env =
     \<lparr>env_access_token = Some ''token'',
      env_dropbox_installed = True,
      read_local = (\<lambda>p. Inr ''data''),
      write_local = (\<lambda>p c. Inr ()),
      files_upload = (\<lambda>c p. check_path p ()),
      files_download = (\<lambda>p. check_path p ''data''),
      files_list_folder = (\<lambda>p. check_path p [FolderMetadata ''docs'' ''/docs'']),
      files_create_folder_v2 = (\<lambda>p. check_path p ()),
      files_delete_v2 = (\<lambda>p. check_path p ()),
      files_get_metadata = (\<lambda>p. check_path p (FolderMetadata ''docs'' ''/docs'')),
      sharing_list_shared_links = (\<lambda>p. check_path p []),
      sharing_create_shared_link_with_settings = (\<lambda>p. check_path p ''https://www.dropbox.com/s/x''),
      files_search_v2 = (\<lambda>q. Inr []),
      users_get_current_account =
        Inr \<lparr>display_name = ''A'', email = ''a@example.org'', account_type = ''basic''\<rparr>,
      users_get_space_usage = Inr (0, 0),
      fmt_gb = (\<lambda>n. ''0.00'')\<rparr>"

subsection \<open>The tool functions of the second Dropbox server\<close>

text \<open>The functions registered with \<open>@mcp.tool()\<close>; their arguments are strings.\<close>

definition token_msg :: string where
  "token_msg = ''DROPBOX_ACCESS_TOKEN environment variable not set''"

definition upload_file :: "dropbox_env \<Rightarrow> string \<Rightarrow> string \<Rightarrow> (dropbox_op, string) io" where
  "upload_file env local_path dropbox_path =
     io_try
       (io_bind (get_dropbox_client token_msg env) (\<lambda>_.
        io_bind (io_call (ReadLocalFile (PStr local_path)) (read_local env (PStr local_path)))
          (\<lambda>file_content.
        io_bind (io_call (FilesUpload file_content (PStr dropbox_path))
                   (files_upload env file_content (PStr dropbox_path))) (\<lambda>_.
        io_return (''File uploaded successfully: '' @ dropbox_path)))))
       (\<lambda>e. if exn_cls e = FileNotFoundError
             then io_return (''Local file not found: '' @ local_path)
             else io_return (''Upload failed: '' @ str_exn e))"

definition download_file :: "dropbox_env \<Rightarrow> string \<Rightarrow> string \<Rightarrow> (dropbox_op, string) io" where
  "download_file env dropbox_path local_path =
     io_try
       (io_bind (get_dropbox_client token_msg env) (\<lambda>_.
        io_bind (io_call (FilesDownload (PStr dropbox_path)) (files_download env (PStr dropbox_path)))
          (\<lambda>content.
        io_bind (io_call (WriteLocalFile (PStr local_path) content)
                   (write_local env (PStr local_path) content)) (\<lambda>_.
        io_return (''File downloaded successfully: '' @ local_path)))))
       (\<lambda>e. io_return (''Download failed: '' @ str_exn e))"

definition list_folder :: "dropbox_env \<Rightarrow> string \<Rightarrow> (dropbox_op, string) io" where
  "list_folder env folder_path =
     io_try
       (io_bind (get_dropbox_client token_msg env) (\<lambda>_.
        io_bind (io_pure (normalize_folder_path (PStr folder_path))) (\<lambda>folder_path.
        io_bind (io_call (FilesListFolder folder_path) (files_list_folder env folder_path))
          (\<lambda>entries.
        io_return (list_folder_output (py_format folder_path) entries)))))
       (\<lambda>e. io_return (''List folder failed: '' @ str_exn e))"

definition create_folder :: "dropbox_env \<Rightarrow> string \<Rightarrow> (dropbox_op, string) io" where
  "create_folder env folder_path =
     io_try
       (io_bind (get_dropbox_client token_msg env) (\<lambda>_.
        io_bind (io_pure (add_leading_slash (PStr folder_path))) (\<lambda>folder_path.
        io_bind (io_call (FilesCreateFolderV2 folder_path) (files_create_folder_v2 env folder_path))
          (\<lambda>_.
        io_return (''Folder created successfully: '' @ py_format folder_path)))))
       (\<lambda>e. io_return (''Create folder failed: '' @ str_exn e))"

text \<open>The paths that the calls of the SDK in a list of operations were given.\<close>

definition vendor_paths :: "dropbox_op list \<Rightarrow> pyval list" where
  "vendor_paths tr = List.map_filter vendor_path tr"

section \<open>HTTP and JSON\<close>

text \<open>
  A decoded JSON value; a float is kept as its literal.  An object keeps its members in
  the order of the document, and a later member of the same name wins.
\<close>

datatype json =
    JNull | JBool bool | JNum int | JFloat string | JStr string
  | JArr "json list" | JObj "(string \<times> json) list"




text \<open>A response of \<open>requests\<close>: the status, the body, and what \<open>response.json()\<close>
  gives, the decoded body or the exception of the decoder.\<close>

record http_response =
  status_code :: int
  content :: string
  json_body :: "exn + json"

datatype http_op =
    HttpGet string
  | HttpPostForm string "(string \<times> json) list"
  | HttpPostJson string "(string \<times> string) list" json

section \<open>Instagram MCP Server\<close>















section \<open>PDF Tools MCP Server\<close>

text \<open>
  The operations \<open>split_pdf_pages\<close> performs: the download, the temporary files it
  creates, writes, reads and deletes, and the pages it adds to the writer.  A page is
  named by its content.  The environment says what is downloaded, which names the
  temporary files get (by suffix), whether writing succeeds, and what the PDF library
  makes of the bytes.
\<close>

datatype pdf_op =
    PdfGet string
  | CreateTemp string
  | WriteTemp string string
  | ReadPdf string
  | AddPage string
  | WritePdf string
  | ReadFile string
  | Unlink string

record pdf_env =
  pdf_libs :: "exn option"
  pdf_get :: "string \<Rightarrow> exn + http_response"
  tmp_name :: "string \<Rightarrow> string"
  temp_write :: "string \<Rightarrow> string \<Rightarrow> exn + unit"
  read_pdf :: "string \<Rightarrow> exn + string list"
  write_pdf :: "string list \<Rightarrow> exn + string"
  b64encode :: "string \<Rightarrow> string"

definition get_pdf_libraries :: "pdf_env \<Rightarrow> exn + unit" where
  "get_pdf_libraries env =
     (case pdf_libs env of
        None \<Rightarrow> Inr ()
      | Some e \<Rightarrow> Inl (Exn ImportError
          (''Required PDF libraries not installed. Install with: pip install PyPDF2 reportlab. Error: ''
           @ str_exn e)))"

text \<open>\<open>for page in pages: pdf_writer.add_page(page)\<close>\<close>

fun add_pages :: "string list \<Rightarrow> (pdf_op, unit) io" where
  "add_pages [] = io_return ()"
| "add_pages (p # ps) = io_bind (io_call (AddPage p) (Inr ())) (\<lambda>_. add_pages ps)"

definition split_result_text ::
  "string \<Rightarrow> int \<Rightarrow> int \<Rightarrow> int \<Rightarrow> int \<Rightarrow> string \<Rightarrow> string \<Rightarrow> string" where
  "split_result_text pdf_url total_pages start_page end_page pages_extracted split_pdf_data base64_data =
     ''PDF Split Results:'' @ [CHR 0x0A]
     @ [CHR 0xF0, CHR 0x9F, CHR 0x93, CHR 0x84] @ '' Source: '' @ pdf_url @ [CHR 0x0A]
     @ [CHR 0xF0, CHR 0x9F, CHR 0x93, CHR 0x8A] @ '' Original Pages: '' @ str_int total_pages @ [CHR 0x0A]
     @ [CHR 0xE2, CHR 0x9C, CHR 0x82, CHR 0xEF, CHR 0xB8, CHR 0x8F] @ ''  Extracted Pages: ''
     @ str_int start_page @ ''-'' @ str_int end_page @ '' ('' @ str_int pages_extracted @ '' pages)''
     @ [CHR 0x0A]
     @ [CHR 0xF0, CHR 0x9F, CHR 0x93, CHR 0x81] @ '' Output Size: ''
     @ str_int (int (length split_pdf_data)) @ '' bytes'' @ [CHR 0x0A] @ [CHR 0x0A]
     @ [CHR 0xF0, CHR 0x9F, CHR 0x93, CHR 0x8B] @ '' Base64 Data (first 100 chars):'' @ [CHR 0x0A]
     @ take 100 base64_data @ ''...'' @ [CHR 0x0A] @ [CHR 0x0A]
     @ [CHR 0xF0, CHR 0x9F, CHR 0x92, CHR 0xA1] @ '' Use this base64 data to save the split PDF file.''"

text \<open>The pages of \<open>range(start_page - 1, end_page)\<close>; the range check comes first, so
  every index is inside the document.\<close>

definition selected_pages :: "string list \<Rightarrow> int \<Rightarrow> int \<Rightarrow> string list" where
  "selected_pages pages start_page end_page =
     map (\<lambda>page_num. pages ! nat page_num) [start_page - 1 .. end_page - 1]"

definition split_pdf_pages ::
  "pdf_env \<Rightarrow> string \<Rightarrow> int \<Rightarrow> int \<Rightarrow> (pdf_op, string) io" where
  "split_pdf_pages env pdf_url start_page end_page =
     io_try
       (io_bind (io_pure (get_pdf_libraries env)) (\<lambda>_.
        io_bind (io_call (PdfGet pdf_url) (pdf_get env pdf_url)) (\<lambda>response.
        if status_code response \<noteq> 200 then
          io_return (''Failed to download PDF from '' @ pdf_url)
        else
          (let temp_path = tmp_name env ''.pdf'' in
           io_bind (io_call (CreateTemp temp_path) (Inr ())) (\<lambda>_.
           io_bind (io_call (WriteTemp temp_path (content response))
                      (temp_write env temp_path (content response))) (\<lambda>_.
           io_finally
             (io_bind (io_call (ReadPdf temp_path) (read_pdf env (content response))) (\<lambda>pages.
              let total_pages = int (length pages) in
              if start_page < 1 \<or> end_page > total_pages \<or> start_page > end_page then
                io_return (''Invalid page range: '' @ str_int start_page @ ''-'' @ str_int end_page
                           @ ''. PDF has '' @ str_int total_pages @ '' pages.'')
              else
                io_bind (add_pages (selected_pages pages start_page end_page)) (\<lambda>_.
                (let output_path = tmp_name env ''_split.pdf'' in
                 io_bind (io_call (CreateTemp output_path) (Inr ())) (\<lambda>_.
                 io_bind (io_call (WritePdf output_path)
                            (write_pdf env (selected_pages pages start_page end_page)))
                   (\<lambda>split_pdf_data.
                 io_bind (io_call (ReadFile output_path) (Inr ())) (\<lambda>_.
                 (let base64_data = b64encode env split_pdf_data in
                  io_bind (io_call (Unlink output_path) (Inr ())) (\<lambda>_.
                  (let pages_extracted = end_page - start_page + 1 in
                   io_return (split_result_text pdf_url total_pages start_page end_page
                                pages_extracted split_pdf_data base64_data)))))))))))
             (io_call (Unlink temp_path) (Inr ()))))))))
       (\<lambda>e. io_return (''Failed to split PDF: '' @ str_exn e))"

text \<open>The temporary files on disk after a list of operations.\<close>

fun temp_files_left :: "pdf_op list \<Rightarrow> string list \<Rightarrow> string list" where
  "temp_files_left [] fs = fs"
| "temp_files_left (CreateTemp p # ops) fs = temp_files_left ops (fs @ [p])"
| "temp_files_left (Unlink p # ops) fs = temp_files_left ops (removeAll p fs)"
| "temp_files_left (ev # ops) fs = temp_files_left ops fs"

text \<open>The pages added to the writer in a list of operations.\<close>

fun pages_added :: "pdf_op list \<Rightarrow> string list" where
  "pages_added [] = []"
| "pages_added (AddPage p # ops) = p # pages_added ops"
| "pages_added (ev # ops) = pages_added ops"

text \<open>Environments to run \<open>split_pdf_pages\<close> in: a document of three pages, and the
  same with the disk full when the writer writes its output.\<close>

definition sample_pdf_env :: pdf_env where
  "sample_pdf_env =
     \<lparr>pdf_libs = None,
      pdf_get = (\<lambda>url. Inr \<lparr>status_code = 200, content = ''%PDF-1.4 abc'', json_body = Inl (Exn ValueError ''Expecting value'')\<rparr>),
      tmp_name = (\<lambda>suffix. ''/tmp/tmp0'' @ suffix),
      temp_write = (\<lambda>p c. Inr ()),
      read_pdf = (\<lambda>c. Inr [''a'', ''b'', ''c'']),
      write_pdf = (\<lambda>ps. Inr (concat ps)),
      b64encode = (\<lambda>c. c)\<rparr>"

definition disk_full_pdf_env :: pdf_env where
  "disk_full_pdf_env =
     sample_pdf_env\<lparr>write_pdf := (\<lambda>ps. Inl (Exn OSError ''[Errno 28] No space left on device''))\<rparr>"

section \<open>ElevenLabs MCP Server\<close>










section \<open>Verification\<close>

subsection \<open>The ordinal of a date\<close>

lemma month_day_ok:
  assumes "0 \<le> n" "n < 365"
  shows "case month_day lp n of (m, d) \<Rightarrow>
      1 \<le> m \<and> m \<le> 12 \<and> 1 \<le> d
      \<and> d \<le> DAYS_IN_MONTH ! nat m + (if m = 2 \<and> lp then 1 else 0)
      \<and> DAYS_BEFORE_MONTH ! nat m + (if m > 2 \<and> lp then 1 else 0) + d = n + 1"
proof -
  define k where "k = (n + 50) div 32"
  have kb: "32 * k \<le> n + 50" "n + 50 < 32 * k + 32"
    unfolding k_def by presburger+
  have keq: "(n + 50) div 32 = k" by (simp add: k_def)
  have "1 \<le> k" "k \<le> 12" using assms kb by linarith+
  then have "k = 1 \<or> k = 2 \<or> k = 3 \<or> k = 4 \<or> k = 5 \<or> k = 6
    \<or> k = 7 \<or> k = 8 \<or> k = 9 \<or> k = 10 \<or> k = 11 \<or> k = 12"
    by presburger
  then consider "k = 1" | "k = 2" | "k = 3" | "k = 4" | "k = 5" | "k = 6"
    | "k = 7" | "k = 8" | "k = 9" | "k = 10" | "k = 11" | "k = 12"
    by blast
  then show ?thesis
  proof cases
    case 1 then show ?thesis using kb assms
      by (simp add: month_day_def keq Let_def DAYS_BEFORE_MONTH_def DAYS_IN_MONTH_def)
  next
    case 2 then show ?thesis using kb assms
      by (simp add: month_day_def keq Let_def DAYS_BEFORE_MONTH_def DAYS_IN_MONTH_def)
  next
    case 3 then show ?thesis using kb assms
      by (simp add: month_day_def keq Let_def DAYS_BEFORE_MONTH_def DAYS_IN_MONTH_def)
  next
    case 4 then show ?thesis using kb assms
      by (simp add: month_day_def keq Let_def DAYS_BEFORE_MONTH_def DAYS_IN_MONTH_def)
  next
    case 5 then show ?thesis using kb assms
      by (simp add: month_day_def keq Let_def DAYS_BEFORE_MONTH_def DAYS_IN_MONTH_def)
  next
    case 6 then show ?thesis using kb assms
      by (simp add: month_day_def keq Let_def DAYS_BEFORE_MONTH_def DAYS_IN_MONTH_def)
  next
    case 7 then show ?thesis using kb assms
      by (simp add: month_day_def keq Let_def DAYS_BEFORE_MONTH_def DAYS_IN_MONTH_def)
  next
    case 8 then show ?thesis using kb assms
      by (simp add: month_day_def keq Let_def DAYS_BEFORE_MONTH_def DAYS_IN_MONTH_def)
  next
    case 9 then show ?thesis using kb assms
      by (simp add: month_day_def keq Let_def DAYS_BEFORE_MONTH_def DAYS_IN_MONTH_def)
  next
    case 10 then show ?thesis using kb assms
      by (simp add: month_day_def keq Let_def DAYS_BEFORE_MONTH_def DAYS_IN_MONTH_def)
  next
    case 11 then show ?thesis using kb assms
      by (simp add: month_day_def keq Let_def DAYS_BEFORE_MONTH_def DAYS_IN_MONTH_def)
  next
    case 12 then show ?thesis using kb assms
      by (simp add: month_day_def keq Let_def DAYS_BEFORE_MONTH_def DAYS_IN_MONTH_def)
  qed
qed

lemma div_block:
  fixes k q u :: int
  assumes "0 \<le> u" "u < k"
  shows "(k * q + u) div k = q"
proof -
  have "0 < k" using assms by linarith
  then have "(k * q + u) div k = q + u div k" by simp
  then show ?thesis using assms by simp
qed

lemma mod_block_zero:
  fixes k q u :: int
  assumes "0 < u" "u \<le> k"
  shows "((k * q + u) mod k = 0) = (u = k)"
proof (cases "u = k")
  case True
  then show ?thesis by simp
next
  case False
  then have "u mod k = u" using assms by simp
  then show ?thesis using False assms by simp
qed

lemma is_leap_decomp:
  assumes "0 \<le> b" "b \<le> 3" "0 \<le> c" "c \<le> 24" "0 \<le> d" "d \<le> 3"
  shows "is_leap (400 * a + 100 * b + 4 * c + d + 1) = (d = 3 \<and> (c \<noteq> 24 \<or> b = 3))"
proof -
  define y where "y = 400 * a + 100 * b + 4 * c + d + 1"
  have y4: "y = 4 * (100 * a + 25 * b + c) + (d + 1)"
    and y100: "y = 100 * (4 * a + b) + (4 * c + d + 1)"
    and y400: "y = 400 * a + (100 * b + 4 * c + d + 1)"
    by (simp_all add: y_def)
  have m4: "(y mod 4 = 0) = (d + 1 = 4)"
    unfolding y4 using assms by (intro mod_block_zero) linarith+
  have m100: "(y mod 100 = 0) = (4 * c + d + 1 = 100)"
    unfolding y100 using assms by (intro mod_block_zero) linarith+
  have m400: "(y mod 400 = 0) = (100 * b + 4 * c + d + 1 = 400)"
    unfolding y400 using assms by (intro mod_block_zero) linarith+
  have "is_leap y = (d = 3 \<and> (c \<noteq> 24 \<or> b = 3))"
    unfolding is_leap_def m4 m100 m400 using assms by auto
  then show ?thesis by (simp add: y_def)
qed

lemma dby_decomp:
  assumes "0 \<le> b" "b \<le> 3" "0 \<le> c" "c \<le> 24" "0 \<le> d" "d \<le> 3"
  shows "days_before_year (400 * a + 100 * b + 4 * c + d + 1)
           = 146097 * a + 36524 * b + 1461 * c + 365 * d"
proof -
  define y1 where "y1 = 400 * a + 100 * b + 4 * c + d"
  have y4: "y1 = 4 * (100 * a + 25 * b + c) + d"
    and y100: "y1 = 100 * (4 * a + b) + (4 * c + d)"
    and y400: "y1 = 400 * a + (100 * b + 4 * c + d)"
    by (simp_all add: y1_def)
  have d4: "y1 div 4 = 100 * a + 25 * b + c"
    unfolding y4 using assms by (intro div_block) linarith+
  have d100: "y1 div 100 = 4 * a + b"
    unfolding y100 using assms by (intro div_block) linarith+
  have d400: "y1 div 400 = a"
    unfolding y400 using assms by (intro div_block) linarith+
  have "y1 * 365 + y1 div 4 - y1 div 100 + y1 div 400
          = 146097 * a + 36524 * b + 1461 * c + 365 * d"
    unfolding d4 d100 d400 by (simp add: y1_def)
  then show ?thesis by (simp add: days_before_year_def y1_def Let_def)
qed

lemma ord2ymd_ok:
  assumes "1 \<le> n" "n \<le> MAXORDINAL" "ord2ymd n = (y, m, d)"
  shows "ymd2ord y m d = n \<and> 1 \<le> y \<and> y \<le> 9999 \<and> 1 \<le> m \<and> m \<le> 12
         \<and> 1 \<le> d \<and> d \<le> days_in_month y m"
proof -
  define a where "a = (n - 1) div 146097"
  define r1 where "r1 = (n - 1) mod 146097"
  define b where "b = r1 div 36524"
  define r2 where "r2 = r1 mod 36524"
  define c where "c = r2 div 1461"
  define r3 where "r3 = r2 mod 1461"
  define e where "e = r3 div 365"
  define r4 where "r4 = r3 mod 365"
  have n0: "n - 1 = 146097 * a + r1" "0 \<le> r1" "r1 < 146097"
    by (simp_all add: a_def r1_def)
  have q1: "r1 = 36524 * b + r2" "0 \<le> r2" "r2 < 36524"
    by (simp_all add: b_def r2_def)
  have q2: "r2 = 1461 * c + r3" "0 \<le> r3" "r3 < 1461"
    by (simp_all add: c_def r3_def)
  have q3: "r3 = 365 * e + r4" "0 \<le> r4" "r4 < 365"
    by (simp_all add: e_def r4_def)
  have bnd: "0 \<le> a" "a \<le> 24" "0 \<le> b" "b \<le> 4" "0 \<le> c" "c \<le> 24" "0 \<le> e" "e \<le> 4"
    using n0 q1 q2 q3 assms(1,2) unfolding MAXORDINAL_def by linarith+
  have "ord2ymd n =
      (if e = 4 \<or> b = 4 then (a * 400 + 1 + b * 100 + c * 4 + e - 1, 12, 31)
       else (let (m', d') = month_day (e = 3 \<and> (c \<noteq> 24 \<or> b = 3)) r4
             in (a * 400 + 1 + b * 100 + c * 4 + e, m', d')))"
    unfolding ord2ymd_def Let_def DI400Y_def DI100Y_def DI4Y_def
      a_def r1_def b_def r2_def c_def r3_def e_def r4_def by (rule refl)
  then have res: "(y, m, d) =
      (if e = 4 \<or> b = 4 then (a * 400 + 1 + b * 100 + c * 4 + e - 1, 12, 31)
       else (let (m', d') = month_day (e = 3 \<and> (c \<noteq> 24 \<or> b = 3)) r4
             in (a * 400 + 1 + b * 100 + c * 4 + e, m', d')))"
    using assms(3) by simp
  show ?thesis
  proof (cases "b = 4")
    case True
    then have z: "r2 = 0" "c = 0" "r3 = 0" "e = 0" "r4 = 0"
      using n0 q1 q2 q3 bnd by linarith+
    have ymd: "y = 400 * a + 100 * 3 + 4 * 24 + 3 + 1" "m = 12" "d = 31"
      using res True z by simp_all
    have "days_before_year y = 146097 * a + 36524 * 3 + 1461 * 24 + 365 * 3"
      unfolding ymd(1) by (rule dby_decomp) simp_all
    moreover have "is_leap y"
      unfolding ymd(1) by (subst is_leap_decomp) simp_all
    moreover have "y \<le> 9999" "1 \<le> y" using ymd(1) n0 q1 True z bnd assms(2)
        unfolding MAXORDINAL_def by linarith+
    ultimately show ?thesis
      using ymd True z n0 q1 bnd
      by (simp add: ymd2ord_def days_before_month_def days_in_month_def
          DAYS_BEFORE_MONTH_def DAYS_IN_MONTH_def)
  next
    case b3: False
    then have b3': "b \<le> 3" using bnd by linarith
    show ?thesis
    proof (cases "e = 4")
      case True
      then have z: "r4 = 0" "c \<le> 23" using q1 q2 q3 bnd by linarith+
      have ymd: "y = 400 * a + 100 * b + 4 * c + 3 + 1" "m = 12" "d = 31"
        using res True by simp_all
      have "days_before_year y = 146097 * a + 36524 * b + 1461 * c + 365 * 3"
        unfolding ymd(1) using bnd b3' by (intro dby_decomp) simp_all
      moreover have "is_leap y"
        unfolding ymd(1) using bnd b3' z by (subst is_leap_decomp) simp_all
      moreover have "y \<le> 9999" "1 \<le> y" using ymd(1) n0 q1 q2 q3 True z bnd b3' assms(2)
        unfolding MAXORDINAL_def by linarith+
      ultimately show ?thesis
        using ymd True z n0 q1 q2 q3 bnd
        by (simp add: ymd2ord_def days_before_month_def days_in_month_def
            DAYS_BEFORE_MONTH_def DAYS_IN_MONTH_def)
    next
      case False
      then have e3: "e \<le> 3" using bnd by linarith
      define lp where "lp = (e = 3 \<and> (c \<noteq> 24 \<or> b = 3))"
      have md: "month_day lp r4 = (m, d)" and yeq: "y = 400 * a + 100 * b + 4 * c + e + 1"
        using res False b3 unfolding lp_def by (auto simp: Let_def split: prod.splits)
      have dby: "days_before_year y = 146097 * a + 36524 * b + 1461 * c + 365 * e"
        unfolding yeq using bnd b3' e3 by (intro dby_decomp) simp_all
      have lpy: "is_leap y = lp"
        unfolding yeq lp_def using bnd b3' e3 by (intro is_leap_decomp) simp_all
      have mdok: "1 \<le> m \<and> m \<le> 12 \<and> 1 \<le> d
        \<and> d \<le> DAYS_IN_MONTH ! nat m + (if m = 2 \<and> lp then 1 else 0)
        \<and> DAYS_BEFORE_MONTH ! nat m + (if m > 2 \<and> lp then 1 else 0) + d = r4 + 1"
        using month_day_ok[OF q3(2) q3(3), of lp] md by simp
      have y9: "y \<le> 9999" using yeq n0 q1 q2 q3 bnd b3' e3 assms(2)
        unfolding MAXORDINAL_def by linarith
      have y1: "1 \<le> y" using yeq bnd by linarith
      have dim: "days_in_month y m = DAYS_IN_MONTH ! nat m + (if m = 2 \<and> lp then 1 else 0)"
        by (auto simp: days_in_month_def lpy DAYS_IN_MONTH_def)
      have "ymd2ord y m d = n"
        using dby mdok n0 q1 q2 q3 by (simp add: ymd2ord_def days_before_month_def lpy)
      then show ?thesis using mdok y9 y1 dim by simp
    qed
  qed
qed

lemma div_step:
  fixes x k :: int
  assumes "1 < k"
  shows "(x + 1) div k = x div k + (if (x + 1) mod k = 0 then 1 else 0)"
proof -
  define q where "q = (x + 1) div k"
  define r where "r = (x + 1) mod k"
  have e1: "x + 1 = k * q + r" by (simp add: q_def r_def)
  have b1: "0 \<le> r" "r < k" using assms by (simp_all add: r_def)
  show ?thesis
  proof (cases "r = 0")
    case True
    then have "x = k * (q - 1) + (k - 1)" using e1 by (simp add: algebra_simps)
    then have "x div k = (k * (q - 1) + (k - 1)) div k" by simp
    also have "\<dots> = q - 1" using assms by (intro div_block) auto
    finally show ?thesis using True by (simp add: q_def r_def)
  next
    case False
    have "x = k * q + (r - 1)" using e1 by (simp add: algebra_simps)
    then have "x div k = (k * q + (r - 1)) div k" by simp
    also have "\<dots> = q" using assms b1 False by (intro div_block) auto
    finally show ?thesis using False by (simp add: q_def r_def)
  qed
qed

lemma mod_100_4: "(y::int) mod 100 = 0 \<Longrightarrow> y mod 4 = 0"
  using mod_mod_cancel[of 4 100 y] by simp

lemma mod_400_100: "(y::int) mod 400 = 0 \<Longrightarrow> y mod 100 = 0"
  using mod_mod_cancel[of 100 400 y] by simp

lemma days_before_year_step:
  "days_before_year (y + 1) = days_before_year y + 365 + (if is_leap y then 1 else 0)"
proof -
  have s4: "y div 4 = (y - 1) div 4 + (if y mod 4 = 0 then 1 else 0)"
    using div_step[of 4 "y - 1"] by simp
  have s100: "y div 100 = (y - 1) div 100 + (if y mod 100 = 0 then 1 else 0)"
    using div_step[of 100 "y - 1"] by simp
  have s400: "y div 400 = (y - 1) div 400 + (if y mod 400 = 0 then 1 else 0)"
    using div_step[of 400 "y - 1"] by simp
  have l: "days_before_year (y + 1) = y * 365 + y div 4 - y div 100 + y div 400"
    by (simp add: days_before_year_def Let_def)
  have r: "days_before_year y = (y - 1) * 365 + (y - 1) div 4 - (y - 1) div 100 + (y - 1) div 400"
    by (simp add: days_before_year_def Let_def)
  show ?thesis
  proof (cases "y mod 4 = 0")
    case False
    then have "y mod 100 \<noteq> 0" "y mod 400 \<noteq> 0"
      using mod_100_4[of y] mod_400_100[of y] by auto
    then show ?thesis using False unfolding l r s4 s100 s400 is_leap_def
      by (simp add: algebra_simps)
  next
    case m4: True
    show ?thesis
    proof (cases "y mod 100 = 0")
      case False
      then have "y mod 400 \<noteq> 0" using mod_400_100[of y] by auto
      then show ?thesis using False m4 unfolding l r s4 s100 s400 is_leap_def
        by (simp add: algebra_simps)
    next
      case True
      then show ?thesis using m4 unfolding l r s4 s100 s400 is_leap_def
        by (cases "y mod 400 = 0") (simp_all add: algebra_simps)
    qed
  qed
qed


lemma days_before_year_mono:
  assumes "y1 \<le> y2"
  shows "days_before_year y1 \<le> days_before_year y2"
  using assms
proof (induction y2 rule: int_ge_induct)
  case base
  show ?case by simp
next
  case (step i)
  then show ?case using days_before_year_step[of i] by (simp split: if_splits)
qed

lemma month_cases:
  fixes m :: int
  assumes "1 \<le> m" "m \<le> 12"
  obtains "m = 1" | "m = 2" | "m = 3" | "m = 4" | "m = 5" | "m = 6"
    | "m = 7" | "m = 8" | "m = 9" | "m = 10" | "m = 11" | "m = 12"
proof -
  have "m = 1 \<or> m = 2 \<or> m = 3 \<or> m = 4 \<or> m = 5 \<or> m = 6
    \<or> m = 7 \<or> m = 8 \<or> m = 9 \<or> m = 10 \<or> m = 11 \<or> m = 12"
    using assms by presburger
  then show ?thesis using that by blast
qed

lemma days_before_month_step:
  assumes "1 \<le> m" "m \<le> 11"
  shows "days_before_month y (m + 1) = days_before_month y m + days_in_month y m"
proof -
  have "m \<le> 12" using assms by simp
  with assms(1) show ?thesis
    using assms(2)
    by (cases m rule: month_cases)
       (simp_all add: days_before_month_def days_in_month_def DAYS_BEFORE_MONTH_def
          DAYS_IN_MONTH_def)
qed

lemma days_in_month_pos:
  assumes "1 \<le> m" "m \<le> 12"
  shows "28 \<le> days_in_month y m"
  using assms
  by (cases m rule: month_cases) (simp_all add: days_in_month_def DAYS_IN_MONTH_def)

lemma days_before_month_mono:
  assumes "1 \<le> m1" "m1 < m2" "m2 \<le> 12"
  shows "days_before_month y m1 + days_in_month y m1 \<le> days_before_month y m2"
proof -
  have "m1 + 1 \<le> m2" using assms by simp
  then have "m2 \<le> 12 \<longrightarrow> days_before_month y m1 + days_in_month y m1 \<le> days_before_month y m2"
  proof (induction m2 rule: int_ge_induct)
    case base
    show ?case using days_before_month_step[of m1 y] assms by simp
  next
    case (step i)
    show ?case
    proof
      assume "i + 1 \<le> 12"
      then have i: "i \<le> 11" "1 \<le> i" "i \<le> 12" using step.hyps assms(1) by linarith+
      then show "days_before_month y m1 + days_in_month y m1 \<le> days_before_month y (i + 1)"
        using step.IH days_before_month_step[of i y] days_in_month_pos[of i y] by simp
    qed
  qed
  then show ?thesis using assms by simp
qed

lemma year_length:
  assumes "1 \<le> m" "m \<le> 12" "d \<le> days_in_month y m"
  shows "days_before_month y m + d \<le> 365 + (if is_leap y then 1 else 0)"
  using assms
  by (cases m rule: month_cases)
     (simp_all add: days_before_month_def days_in_month_def DAYS_BEFORE_MONTH_def
        DAYS_IN_MONTH_def split: if_splits)

lemma days_before_month_nonneg:
  assumes "1 \<le> m" "m \<le> 12"
  shows "0 \<le> days_before_month y m"
  using assms
  by (cases m rule: month_cases)
     (simp_all add: days_before_month_def DAYS_BEFORE_MONTH_def)

lemma date_before_toordinal:
  assumes "valid_date a" "valid_date b" "date_before a b"
  shows "toordinal a < toordinal b"
proof -
  have va: "1 \<le> month a" "month a \<le> 12" "1 \<le> day a" "day a \<le> days_in_month (year a) (month a)"
    and vb: "1 \<le> month b" "month b \<le> 12" "1 \<le> day b" "day b \<le> days_in_month (year b) (month b)"
    using assms(1,2) by (simp_all add: valid_date_def)
  consider (y) "year a < year b"
    | (m) "year a = year b" "month a < month b"
    | (d) "year a = year b" "month a = month b" "day a < day b"
    using assms(3) by (auto simp: date_before_def)
  then show ?thesis
  proof cases
    case y
    have "toordinal a \<le> days_before_year (year a + 1)"
      using year_length[OF va(1,2,4)] days_before_year_step[of "year a"]
      by (simp add: toordinal_def ymd2ord_def)
    also have "\<dots> \<le> days_before_year (year b)"
      using y by (intro days_before_year_mono) simp
    also have "\<dots> < toordinal b"
      using days_before_month_nonneg[OF vb(1,2), of "year b"] vb(3)
      by (simp add: toordinal_def ymd2ord_def)
    finally show ?thesis .
  next
    case m
    show ?thesis
      using days_before_month_mono[OF va(1) m(2) vb(2), of "year a"] va(4) vb(3) m(1)
      by (simp add: toordinal_def ymd2ord_def)
  next
    case d
    then show ?thesis by (simp add: toordinal_def ymd2ord_def)
  qed
qed

subsection \<open>What strptime returns\<close>

lemma digit_val_eval [simp]:
  "digit_val CHR ''0'' = Some 0" "digit_val CHR ''1'' = Some 1" "digit_val CHR ''2'' = Some 2"
  "digit_val CHR ''3'' = Some 3" "digit_val CHR ''4'' = Some 4" "digit_val CHR ''5'' = Some 5"
  "digit_val CHR ''6'' = Some 6" "digit_val CHR ''7'' = Some 7" "digit_val CHR ''8'' = Some 8"
  "digit_val CHR ''9'' = Some 9"
  by (simp_all add: digit_val_def)

lemma digit_val_cases:
  assumes "is_digit c"
  obtains "c = CHR ''0''" | "c = CHR ''1''" | "c = CHR ''2''" | "c = CHR ''3''" | "c = CHR ''4''"
    | "c = CHR ''5''" | "c = CHR ''6''" | "c = CHR ''7''" | "c = CHR ''8''" | "c = CHR ''9''"
  using assms unfolding is_digit_def digit_val_def by (auto split: if_splits)

lemma digit_val_bound:
  assumes "is_digit c"
  shows "\<exists>n. digit_val c = Some n \<and> n \<le> 9"
  using assms by (cases c rule: digit_val_cases) (simp_all add: digit_val_def)

lemma digit19_bound:
  assumes "digit19 c"
  shows "\<exists>n. digit_val c = Some n \<and> 1 \<le> n \<and> n \<le> 9"
proof -
  have "is_digit c" "c \<noteq> CHR ''0''" using assms by (simp_all add: digit19_def)
  then show ?thesis by (cases c rule: digit_val_cases) (simp_all add: digit_val_def)
qed

lemma parse_m_range:
  assumes "parse_m s = Some (m, r)"
  shows "1 \<le> m \<and> m \<le> 12"
proof (cases s rule: parse_m.cases)
  case (1 c1 c2 rest)
  then show ?thesis using assms digit19_bound[of c1] digit19_bound[of c2]
    by (auto simp: int_of_digits_def split: if_splits)
next
  case (2 c1)
  then show ?thesis using assms digit19_bound[of c1]
    by (auto simp: int_of_digits_def split: if_splits)
next
  case 3
  then show ?thesis using assms by simp
qed

lemma parse_d_range:
  assumes "parse_d s = Some (d, r)"
  shows "1 \<le> d"
proof (cases s rule: parse_d.cases)
  case (1 c1 c2 rest)
  then show ?thesis using assms digit19_bound[of c1] digit19_bound[of c2] digit_val_bound[of c2]
    by (auto simp: int_of_digits_def split: if_splits)
next
  case (2 c1)
  then show ?thesis using assms digit19_bound[of c1]
    by (auto simp: int_of_digits_def split: if_splits)
next
  case 3
  then show ?thesis using assms by simp
qed

lemma strptime_ymd_Inr:
  assumes "strptime_ymd s = Inr dt"
  shows "hour dt = 0 \<and> minute dt = 0 \<and> second dt = 0 \<and> 1 \<le> year dt
         \<and> day dt \<le> days_in_month (year dt) (month dt)"
  using assms by (auto simp: strptime_ymd_def split: option.splits if_splits prod.splits)


lemma seconds_of_day_strptime:
  "strptime_ymd s = Inr dt \<Longrightarrow> seconds_of_day dt = 0"
  using strptime_ymd_Inr[of s dt] by (simp add: seconds_of_day_def)

lemma strptime_ymd_valid:
  assumes "strptime_ymd s = Inr dt"
  shows "valid_date dt"
proof -
  obtain y m d where mt: "match_ymd s = Some (y, m, d, [])"
    and dt: "dt = \<lparr>year = y, month = m, day = d, hour = 0, minute = 0, second = 0\<rparr>"
    and dim: "d \<le> days_in_month y m"
    using assms by (auto simp: strptime_ymd_def split: option.splits if_splits prod.splits)
  from mt obtain s2 s3 s4 where "parse_m s2 = Some (m, s3)" "parse_d s4 = Some (d, [])"
    by (auto simp: match_ymd_def split: option.splits prod.splits)
  then have "1 \<le> m \<and> m \<le> 12" "1 \<le> d"
    using parse_m_range parse_d_range by blast+
  then show ?thesis using dim by (simp add: valid_date_def dt)
qed

text \<open>
  C10. \<open>get_days_between_dates\<close> reports the signed difference, end date minus start
  date, in days: for two dates that parse, the text carries the ordinal of the end date
  minus the ordinal of the start date; with the two arguments swapped it carries the
  negated number; and when the end date is earlier in the calendar than the start date
  the number is negative and is written with a minus sign.
\<close>

theorem get_days_between_dates_signed_difference:
  assumes "strptime_ymd a = Inr da" and "strptime_ymd b = Inr db"
  shows "get_days_between_dates a b
           = Inr (''Days between '' @ a @ '' and '' @ b @ '': ''
                  @ str_int (toordinal db - toordinal da))
       \<and> get_days_between_dates b a
           = Inr (''Days between '' @ b @ '' and '' @ a @ '': ''
                  @ str_int (- (toordinal db - toordinal da)))
       \<and> (date_before db da \<longrightarrow>
            toordinal db - toordinal da < 0
            \<and> str_int (toordinal db - toordinal da)
                = CHR ''-'' # str_nat (nat (toordinal da - toordinal db)))"
proof -
  have ord: "date_before db da \<longrightarrow> toordinal db < toordinal da"
    using date_before_toordinal[OF strptime_ymd_valid[OF assms(2)] strptime_ymd_valid[OF assms(1)]]
    by blast
  show ?thesis
    using assms seconds_of_day_strptime[OF assms(1)] seconds_of_day_strptime[OF assms(2)] ord
    by (simp add: get_days_between_dates_def ebind_def except_ValueError_def
        datetime_sub_days_def str_int_def)
qed

theorem get_days_between_dates_signed_difference_witness:
  "get_days_between_dates ''2024-03-01'' ''2024-02-28''
     = Inr ''Days between 2024-03-01 and 2024-02-28: -2''
   \<and> get_days_between_dates ''2024-02-28'' ''2024-03-01''
     = Inr ''Days between 2024-02-28 and 2024-03-01: 2''"
proof -
  let ?da = "\<lparr>year = 2024, month = 3, day = 1, hour = 0, minute = 0, second = 0\<rparr>"
  let ?db = "\<lparr>year = 2024, month = 2, day = 28, hour = 0, minute = 0, second = 0\<rparr>"
  have a: "strptime_ymd ''2024-03-01'' = Inr ?da" by code_simp
  have b: "strptime_ymd ''2024-02-28'' = Inr ?db" by code_simp
  have c: "date_before ?db ?da" by (simp add: date_before_def)
  have d: "toordinal ?db - toordinal ?da = - 2" by code_simp
  have s1: "str_int (- 2) = ''-2''" by code_simp
  have s2: "str_int 2 = ''2''" by code_simp
  show ?thesis
    using get_days_between_dates_signed_difference[OF a b] c d s1 s2 by simp
qed

lemma strptime_HM_Inl:
  assumes "strptime_HM s = Inl e"
  shows "exn_cls e = ValueError"
  using assms by (auto simp: strptime_HM_def split: option.splits if_splits prod.splits)



subsection \<open>Decimal text and the directives of the format\<close>

lemma small_nat_cases:
  fixes k :: nat
  assumes "k < 10"
  obtains "k = 0" | "k = 1" | "k = 2" | "k = 3" | "k = 4" | "k = 5" | "k = 6" | "k = 7"
    | "k = 8" | "k = 9"
proof -
  have "k = 0 \<or> k = 1 \<or> k = 2 \<or> k = 3 \<or> k = 4 \<or> k = 5 \<or> k = 6 \<or> k = 7 \<or> k = 8 \<or> k = 9"
    using assms by (auto simp: less_Suc_eq numeral_eq_Suc)
  then show ?thesis using that by blast
qed

lemma digit_val_digit_char:
  assumes "k < 10"
  shows "digit_val (digit_char k) = Some k"
  using assms by (cases k rule: small_nat_cases) (simp_all add: digit_char_def)

lemma is_digit_digit_char:
  assumes "k < 10"
  shows "is_digit (digit_char k)"
  using digit_val_digit_char[OF assms] by (simp add: is_digit_def)

lemma digit_char_zero_iff:
  assumes "k < 10"
  shows "(digit_char k = CHR ''0'') = (k = 0)"
  using assms by (cases k rule: small_nat_cases) (simp_all add: digit_char_def)

lemma str_nat_1: "n < 10 \<Longrightarrow> str_nat n = [digit_char n]"
  by (subst str_nat.simps) simp

lemma str_nat_2:
  assumes "10 \<le> n" "n < 100"
  shows "str_nat n = [digit_char (n div 10), digit_char (n mod 10)]"
proof -
  have "n div 10 < 10" using assms by simp
  then show ?thesis using assms by (subst str_nat.simps) (simp add: str_nat_1)
qed


lemma str_nat_3:
  assumes "100 \<le> n" "n < 1000"
  shows "str_nat n = [digit_char (n div 10 div 10), digit_char (n div 10 mod 10),
                      digit_char (n mod 10)]"
proof -
  have "10 \<le> n div 10" "n div 10 < 100" using assms by simp_all
  then have "str_nat (n div 10) = [digit_char (n div 10 div 10), digit_char (n div 10 mod 10)]"
    by (rule str_nat_2)
  moreover have "str_nat n = str_nat (n div 10) @ [digit_char (n mod 10)]"
    using assms by (subst str_nat.simps) simp
  ultimately show ?thesis by simp
qed

lemma str_nat_4:
  assumes "1000 \<le> n" "n < 10000"
  shows "str_nat n = [digit_char (n div 10 div 10 div 10), digit_char (n div 10 div 10 mod 10),
                      digit_char (n div 10 mod 10), digit_char (n mod 10)]"
proof -
  have "100 \<le> n div 10" "n div 10 < 1000" using assms by simp_all
  then have "str_nat (n div 10) = [digit_char (n div 10 div 10 div 10),
      digit_char (n div 10 div 10 mod 10), digit_char (n div 10 mod 10)]"
    by (rule str_nat_3)
  moreover have "str_nat n = str_nat (n div 10) @ [digit_char (n mod 10)]"
    using assms by (subst str_nat.simps) simp
  ultimately show ?thesis by simp
qed

lemma digit_char_0: "digit_char 0 = CHR ''0''"
  by (simp add: digit_char_def)

lemma zfill2_str_nat:
  assumes "n < 100"
  shows "zfill 2 (str_nat n) = [digit_char (n div 10), digit_char (n mod 10)]"
proof (cases "n < 10")
  case True
  then show ?thesis by (simp add: str_nat_1 zfill_def digit_char_0)
next
  case False
  then show ?thesis using assms by (simp add: str_nat_2 zfill_def)
qed

lemmas fmt_eval = fmt2_def str_int_def str_nat_1 str_nat_2 zfill_def digit_char_def digit19_def
  is_digit_def int_of_digits_def

lemma parse_m_fmt2:
  assumes "1 \<le> m" "m \<le> 12"
  shows "parse_m (fmt2 m @ CHR ''-'' # rest) = Some (m, CHR ''-'' # rest)"
  using assms by (cases m rule: month_cases) (simp_all add: fmt_eval)


lemma day_cases:
  fixes d :: int
  assumes "1 \<le> d" "d \<le> 31"
  obtains "d = 1" | "d = 2" | "d = 3" | "d = 4" | "d = 5" | "d = 6" | "d = 7" | "d = 8" | "d = 9" | "d = 10" | "d = 11" | "d = 12" | "d = 13" | "d = 14" | "d = 15" | "d = 16" | "d = 17" | "d = 18" | "d = 19" | "d = 20" | "d = 21" | "d = 22" | "d = 23" | "d = 24" | "d = 25" | "d = 26" | "d = 27" | "d = 28" | "d = 29" | "d = 30" | "d = 31"
proof -
  have "d = 1 \<or> d = 2 \<or> d = 3 \<or> d = 4 \<or> d = 5 \<or> d = 6 \<or> d = 7 \<or> d = 8 \<or> d = 9 \<or> d = 10 \<or> d = 11 \<or> d = 12 \<or> d = 13 \<or> d = 14 \<or> d = 15 \<or> d = 16 \<or> d = 17 \<or> d = 18 \<or> d = 19 \<or> d = 20 \<or> d = 21 \<or> d = 22 \<or> d = 23 \<or> d = 24 \<or> d = 25 \<or> d = 26 \<or> d = 27 \<or> d = 28 \<or> d = 29 \<or> d = 30 \<or> d = 31"
    using assms by presburger
  then show ?thesis using that by blast
qed

lemma parse_d_fmt2:
  assumes "1 \<le> d" "d \<le> 31"
  shows "parse_d (fmt2 d) = Some (d, [])"
  using assms by (cases d rule: day_cases) (simp_all add: fmt_eval)

lemma zfill4_1: "zfill 4 [x] = [CHR ''0'', CHR ''0'', CHR ''0'', x]"
  by (simp add: zfill_def numeral_eq_Suc)

lemma zfill4_2: "zfill 4 [x, y] = [CHR ''0'', CHR ''0'', x, y]"
  by (simp add: zfill_def numeral_eq_Suc)

lemma zfill4_3: "zfill 4 [x, y, z] = [CHR ''0'', x, y, z]"
  by (simp add: zfill_def numeral_eq_Suc)

lemma zfill4_4: "zfill 4 [x, y, z, w] = [x, y, z, w]"
  by (simp add: zfill_def)

lemma zfill4_str_nat:
  assumes "n < 10000"
  shows "zfill 4 (str_nat n) = [digit_char (n div 10 div 10 div 10),
     digit_char (n div 10 div 10 mod 10), digit_char (n div 10 mod 10), digit_char (n mod 10)]"
proof -
  consider "n < 10" | "10 \<le> n" "n < 100" | "100 \<le> n" "n < 1000" | "1000 \<le> n"
    by linarith
  then show ?thesis
  proof cases
    case 1
    then have "n div 10 = 0" by simp
    then show ?thesis using 1 by (simp add: str_nat_1 zfill4_1 digit_char_0)
  next
    case 2
    then have "n div 10 div 10 = 0" by simp
    then show ?thesis using 2 by (simp add: str_nat_2 zfill4_2 digit_char_0)
  next
    case 3
    then have "n div 10 div 10 div 10 = 0" by simp
    then show ?thesis using 3 by (simp add: str_nat_3 zfill4_3 digit_char_0)
  next
    case 4
    then show ?thesis using assms by (simp add: str_nat_4 zfill4_4)
  qed
qed

lemma decimal4:
  fixes n :: nat
  shows "10 * (10 * (10 * (n div 10 div 10 div 10) + n div 10 div 10 mod 10) + n div 10 mod 10)
           + n mod 10 = n"
proof -
  have a: "10 * (n div 10 div 10 div 10) + n div 10 div 10 mod 10 = n div 10 div 10"
    by (rule mult_div_mod_eq)
  have b: "10 * (n div 10 div 10) + n div 10 mod 10 = n div 10"
    by (rule mult_div_mod_eq)
  have c: "10 * (n div 10) + n mod 10 = n"
    by (rule mult_div_mod_eq)
  show ?thesis unfolding a b c ..
qed

lemma parse_Y_fmt_Y:
  assumes "1 \<le> y" "y \<le> 9999" "pad \<or> 1000 \<le> y"
  shows "parse_Y (fmt_Y pad y @ rest) = Some (y, rest)"
proof -
  define n where "n = nat y"
  have n: "n < 10000" "y = int n" using assms by (simp_all add: n_def)
  define a where "a = n div 10 div 10 div 10"
  define b where "b = n div 10 div 10 mod 10"
  define c where "c = n div 10 mod 10"
  define e where "e = n mod 10"
  have lt: "a < 10" "b < 10" "c < 10" "e < 10" using n(1) by (simp_all add: a_def b_def c_def e_def)
  have "fmt_Y pad y = [digit_char a, digit_char b, digit_char c, digit_char e]"
  proof (cases pad)
    case True
    then show ?thesis using zfill4_str_nat[OF n(1)] assms(1)
      by (simp add: fmt_Y_def str_int_def n_def a_def b_def c_def e_def)
  next
    case False
    then have "1000 \<le> n" using assms(3) by (simp add: n_def)
    then show ?thesis using str_nat_4[OF _ n(1)] assms(1) False
      by (simp add: fmt_Y_def str_int_def n_def a_def b_def c_def e_def)
  qed
  moreover have "int_of_digits [digit_char a, digit_char b, digit_char c, digit_char e] = y"
    using decimal4[of n] lt
    by (simp add: int_of_digits_def digit_val_digit_char n(2) a_def b_def c_def e_def)
  ultimately show ?thesis
    using lt by (simp add: is_digit_digit_char)
qed

lemma days_in_month_le_31:
  assumes "1 \<le> m" "m \<le> 12"
  shows "days_in_month y m \<le> 31"
  using assms
  by (cases m rule: month_cases) (simp_all add: days_in_month_def DAYS_IN_MONTH_def)

lemma strptime_strftime_ymd:
  assumes "1 \<le> y" "y \<le> 9999" "pad \<or> 1000 \<le> y"
    and "1 \<le> m" "m \<le> 12" "1 \<le> d" "d \<le> days_in_month y m"
  shows "strptime_ymd (strftime_ymd pad \<lparr>year = y, month = m, day = d,
                         hour = h, minute = mi, second = s\<rparr>)
           = Inr \<lparr>year = y, month = m, day = d, hour = 0, minute = 0, second = 0\<rparr>"
proof -
  have d31: "d \<le> 31" using days_in_month_le_31[OF assms(4,5), of y] assms(7) by simp
  have "match_ymd (fmt_Y pad y @ CHR ''-'' # fmt2 m @ CHR ''-'' # fmt2 d) = Some (y, m, d, [])"
    unfolding match_ymd_def
    by (simp add: parse_Y_fmt_Y[OF assms(1,2,3)] parse_m_fmt2[OF assms(4,5)]
        parse_d_fmt2[OF assms(6) d31])
  then show ?thesis using assms by (simp add: strptime_ymd_def strftime_ymd_def)
qed

lemma days_before_year_1: "days_before_year 1 = 0"
  by (simp add: days_before_year_def)

lemma days_before_year_1000: "days_before_year 1000 = 364877"
  by (simp add: days_before_year_def)

lemma days_before_year_10000: "days_before_year 10000 = 3652059"
  by (simp add: days_before_year_def)

lemma ymd2ord_bounds:
  assumes "1 \<le> m" "m \<le> 12" "1 \<le> d" "d \<le> days_in_month y m"
  shows "days_before_year y < ymd2ord y m d" "ymd2ord y m d \<le> days_before_year (y + 1)"
proof -
  show "days_before_year y < ymd2ord y m d"
    using days_before_month_nonneg[OF assms(1,2), of y] assms(3) by (simp add: ymd2ord_def)
  show "ymd2ord y m d \<le> days_before_year (y + 1)"
    using year_length[OF assms(1,2,4)] days_before_year_step[of y] by (simp add: ymd2ord_def)
qed

lemma parse_Y_range:
  assumes "parse_Y s = Some (y, r)"
  shows "0 \<le> y \<and> y \<le> 9999"
proof (cases s rule: parse_Y.cases)
  case (1 c1 c2 c3 c4 rest)
  then show ?thesis
    using assms digit_val_bound[of c1] digit_val_bound[of c2] digit_val_bound[of c3]
      digit_val_bound[of c4]
    by (auto simp: int_of_digits_def split: if_splits)
qed (use assms in simp_all)

lemma strptime_ymd_year:
  assumes "strptime_ymd s = Inr dt"
  shows "1 \<le> year dt \<and> year dt \<le> 9999"
proof -
  obtain y m d where mt: "match_ymd s = Some (y, m, d, [])" and y: "year dt = y" "1 \<le> y"
    using assms by (auto simp: strptime_ymd_def split: option.splits if_splits prod.splits)
  from mt obtain r where "parse_Y s = Some (y, r)"
    by (auto simp: match_ymd_def split: option.splits prod.splits)
  then show ?thesis using parse_Y_range y by auto
qed

lemma toordinal_range:
  assumes "valid_date dt" "1 \<le> year dt" "year dt \<le> 9999"
  shows "1 \<le> toordinal dt \<and> toordinal dt \<le> MAXORDINAL"
proof -
  have v: "1 \<le> month dt" "month dt \<le> 12" "1 \<le> day dt"
    "day dt \<le> days_in_month (year dt) (month dt)"
    using assms(1) by (simp_all add: valid_date_def)
  have "0 \<le> days_before_year (year dt)"
    using days_before_year_mono[OF assms(2)] by (simp add: days_before_year_1)
  moreover have "days_before_year (year dt + 1) \<le> MAXORDINAL"
    using days_before_year_mono[of "year dt + 1" 10000] assms(3)
    by (simp add: days_before_year_10000 MAXORDINAL_def)
  ultimately show ?thesis
    using ymd2ord_bounds[OF v] by (simp add: toordinal_def)
qed

text \<open>
  C2 (as amended).  For a date string \<open>d\<close> that parses and a number of days \<open>n\<close> for
  which the date \<open>n\<close> days from \<open>d\<close> lies within 0001-01-01 and 9999-12-31 (and, on
  a platform whose \<open>%Y\<close> does not pad the year, not before 1000-01-01),
  \<open>add_days_to_date(d, n)\<close> returns a date string \<open>d'\<close>, and
  \<open>get_days_between_dates(d, d')\<close> reports exactly \<open>n\<close> days.
\<close>

theorem add_days_round_trip:
  assumes "strptime_ymd d = Inr dt"
    and "1 \<le> toordinal dt + n" and "toordinal dt + n \<le> MAXORDINAL"
    and "pad \<or> ymd2ord 1000 1 1 \<le> toordinal dt + n"
  shows "\<exists>d'. add_days_to_date pad d n = Inr d'
            \<and> get_days_between_dates d d'
                = Inr (''Days between '' @ d @ '' and '' @ d' @ '': '' @ str_int n)"
proof -
  have mid: "hour dt = 0" "minute dt = 0" "second dt = 0"
    using strptime_ymd_Inr[OF assms(1)] by simp_all
  have rng: "1 \<le> toordinal dt" "toordinal dt \<le> MAXORDINAL"
    using toordinal_range[OF strptime_ymd_valid[OF assms(1)]] strptime_ymd_year[OF assms(1)]
    by simp_all
  have td: "timedelta n = Inr (n, 0)"
    using rng assms(2,3) by (simp add: timedelta_def MAXORDINAL_def)
  obtain y m d0 where o: "ord2ymd (toordinal dt + n) = (y, m, d0)"
    by (cases "ord2ymd (toordinal dt + n)") auto
  have ok: "ymd2ord y m d0 = toordinal dt + n" "1 \<le> y" "y \<le> 9999" "1 \<le> m" "m \<le> 12"
    "1 \<le> d0" "d0 \<le> days_in_month y m"
    using ord2ymd_ok[OF assms(2,3) o] by simp_all
  define nd where "nd = \<lparr>year = y, month = m, day = d0, hour = 0, minute = 0, second = 0\<rparr>"
  have add: "datetime_add dt (n, 0) = Inr nd"
    using assms(2,3) o mid by (simp add: datetime_add_def seconds_of_day_def Let_def nd_def)
  have py: "pad \<or> 1000 \<le> y"
  proof (rule ccontr)
    assume "\<not> (pad \<or> 1000 \<le> y)"
    then have np: "\<not> pad" and y9: "y + 1 \<le> 1000" by simp_all
    have "ymd2ord y m d0 \<le> days_before_year (y + 1)"
      using ymd2ord_bounds(2)[OF ok(4,5,6,7)] .
    also have "\<dots> \<le> days_before_year 1000" using y9 by (rule days_before_year_mono)
    also have "\<dots> < ymd2ord 1000 1 1"
      by (simp add: ymd2ord_def days_before_month_def DAYS_BEFORE_MONTH_def)
    finally show False using assms(4) np ok(1) by simp
  qed
  have rt: "strptime_ymd (strftime_ymd pad nd) = Inr nd"
    unfolding nd_def by (rule strptime_strftime_ymd[OF ok(2,3) py ok(4,5,6,7)])
  have res: "add_days_to_date pad d n = Inr (strftime_ymd pad nd)"
    using assms(1) td add by (simp add: add_days_to_date_def ebind_def except_ValueError_def)
  have "toordinal nd = toordinal dt + n" using ok(1) by (simp add: toordinal_def nd_def)
  then have diff: "datetime_sub_days nd dt = n"
    using mid by (simp add: datetime_sub_days_def seconds_of_day_def nd_def)
  have "get_days_between_dates d (strftime_ymd pad nd)
          = Inr (''Days between '' @ d @ '' and '' @ strftime_ymd pad nd @ '': '' @ str_int n)"
    using assms(1) rt diff
    by (simp add: get_days_between_dates_def ebind_def except_ValueError_def)
  then show ?thesis using res by blast
qed

theorem add_days_round_trip_witness:
  "\<exists>d'. add_days_to_date False ''2024-02-28'' 2 = Inr d'
        \<and> get_days_between_dates ''2024-02-28'' d'
            = Inr (''Days between 2024-02-28 and '' @ d' @ '': 2'')"
proof -
  let ?dt = "\<lparr>year = 2024, month = 2, day = 28, hour = 0, minute = 0, second = 0\<rparr>"
  have a: "strptime_ymd ''2024-02-28'' = Inr ?dt" by code_simp
  have b: "1 \<le> toordinal ?dt + 2" by code_simp
  have c: "toordinal ?dt + 2 \<le> MAXORDINAL" by code_simp
  have e: "False \<or> ymd2ord 1000 1 1 \<le> toordinal ?dt + 2" by code_simp
  have s: "str_int 2 = ''2''" by code_simp
  show ?thesis using add_days_round_trip[OF a b c e] s by simp
qed

text \<open>
  The claim as stated fails at the last representable day: one day after 9999-12-31
  is not a date, \<open>datetime\<close> raises \<open>OverflowError\<close>, which is not a \<open>ValueError\<close>,
  and the exception leaves \<open>add_days_to_date\<close>: no date string is returned.
\<close>

theorem add_days_round_trip_counterexample:
  "strptime_ymd ''9999-12-31''
     = Inr \<lparr>year = 9999, month = 12, day = 31, hour = 0, minute = 0, second = 0\<rparr>
   \<and> add_days_to_date True ''9999-12-31'' 1 = Inl (Exn OverflowError ''date value out of range'')"
  by code_simp






text \<open>
  C1. For a name that is not the name of a registered tool, each dispatcher returns the
  single text \<open>Unknown tool: <name>\<close> as a normal response: the calendar dispatcher
  raises nothing, and the Dropbox dispatcher raises nothing and performs no external
  operation.
\<close>

theorem unknown_tool_response:
  "(nm \<notin> set (map tool_name calendar_list_tools) \<longrightarrow>
      calendar_call_tool pad now nm arguments = Inr (text_content (''Unknown tool: '' @ nm)))
   \<and> (nm \<notin> set (map tool_name dropbox_list_tools) \<longrightarrow>
      dropbox_call_tool env nm arguments tr = (Inr (text_content (''Unknown tool: '' @ nm)), tr))"
proof (intro conjI impI)
  assume "nm \<notin> set (map tool_name calendar_list_tools)"
  then show "calendar_call_tool pad now nm arguments = Inr (text_content (''Unknown tool: '' @ nm))"
    by (simp add: calendar_list_tools_def calendar_call_tool_def)
next
  assume "nm \<notin> set (map tool_name dropbox_list_tools)"
  then show "dropbox_call_tool env nm arguments tr
               = (Inr (text_content (''Unknown tool: '' @ nm)), tr)"
    by (simp add: dropbox_list_tools_def dropbox_call_tool_def io_try_def io_return_def)
qed

theorem unknown_tool_response_witness:
  "calendar_call_tool True \<lparr>year = 2024, month = 1, day = 5, hour = 9, minute = 30, second = 0\<rparr>
     ''get_weather'' Map.empty = Inr (text_content ''Unknown tool: get_weather'')
   \<and> dropbox_call_tool sample_dropbox_env ''get_weather'' Map.empty []
       = (Inr (text_content ''Unknown tool: get_weather''), [])"
proof -
  have a: "''get_weather'' \<notin> set (map tool_name calendar_list_tools)"
    by (simp add: calendar_list_tools_def)
  have b: "''get_weather'' \<notin> set (map tool_name dropbox_list_tools)"
    by (simp add: dropbox_list_tools_def)
  show ?thesis
    using unknown_tool_response[of "''get_weather''" True
        "\<lparr>year = 2024, month = 1, day = 5, hour = 9, minute = 30, second = 0\<rparr>" Map.empty sample_dropbox_env "[]"]
      a b by simp
qed

lemmas io_defs = io_try_def io_bind_def io_call_def io_return_def io_raise_def io_pure_def

lemma add_leading_slash_str:
  "add_leading_slash (PStr s) = Inr (PStr (if prefix ''/'' s then s else ''/'' @ s))"
  by (simp add: add_leading_slash_def ebind_def)

text \<open>
  The handlers that normalise do what C9 says: \<open>create_folder\<close> and \<open>list_folder\<close> give
  the SDK a path that starts with a slash, or the empty path for the root.
\<close>

lemma create_folder_paths:
  assumes "create_folder env p [] = (r, tr)"
  shows "\<forall>q \<in> set (vendor_paths tr). \<exists>s. q = PStr s \<and> prefix ''/'' s"
  using assms
  by (auto simp: create_folder_def io_defs get_dropbox_client_def add_leading_slash_str
      vendor_paths_def List.map_filter_def split: if_splits sum.splits)

lemma list_folder_paths:
  assumes "list_folder env p [] = (r, tr)"
  shows "\<forall>q \<in> set (vendor_paths tr). \<exists>s. q = PStr s \<and> (s = [] \<or> prefix ''/'' s)"
  using assms
  by (auto simp: list_folder_def io_defs get_dropbox_client_def add_leading_slash_str
      normalize_folder_path_def vendor_paths_def List.map_filter_def
      split: if_splits sum.splits)

text \<open>
  C9 at \<open>upload_file\<close>.  The path \<open>docs/a.txt\<close> reaches \<open>files_upload\<close> as it was given,
  without the leading slash, and the upload fails on it; \<open>create_folder\<close> on \<open>docs\<close>
  gives the SDK \<open>/docs\<close>.
\<close>

theorem upload_file_passes_path_unchanged:
  "upload_file sample_dropbox_env ''a.txt'' ''docs/a.txt'' []
     = (Inr (''Upload failed: '' @ [CHR 0x27] @ ''docs/a.txt'' @ [CHR 0x27] @ '' did not match pattern''),
        [ReadLocalFile (PStr ''a.txt''), FilesUpload ''data'' (PStr ''docs/a.txt'')])
   \<and> create_folder sample_dropbox_env ''docs'' []
     = (Inr ''Folder created successfully: /docs'', [FilesCreateFolderV2 (PStr ''/docs'')])"
  by (simp add: upload_file_def create_folder_def io_defs get_dropbox_client_def
      sample_dropbox_env_def check_path_def path_ok_def add_leading_slash_str)












lemma add_pages_trace: "add_pages ps tr = (Inr (), tr @ map AddPage ps)"
  by (induction ps arbitrary: tr) (simp_all add: io_return_def io_bind_def io_call_def)

lemma pages_added_append: "pages_added (xs @ ys) = pages_added xs @ pages_added ys"
  by (induction xs rule: pages_added.induct) simp_all

lemma pages_added_map: "pages_added (map AddPage ps) = ps"
  by (induction ps) simp_all

lemma length_selected_pages:
  "length (selected_pages pages start_page end_page) = nat (end_page - start_page + 1)"
  by (simp add: selected_pages_def)

lemmas split_unfold = split_pdf_pages_def io_try_def io_bind_def io_pure_def io_call_def
  io_return_def io_finally_def Let_def add_pages_trace

lemma split_invalid_range:
  assumes "get_pdf_libraries env = Inr ()" and "pdf_get env pdf_url = Inr resp"
    and "status_code resp = 200"
    and "temp_write env (tmp_name env ''.pdf'') (content resp) = Inr ()"
    and "read_pdf env (content resp) = Inr pages"
    and "start_page < 1 \<or> end_page > int (length pages) \<or> start_page > end_page"
  shows "split_pdf_pages env pdf_url start_page end_page []
     = (Inr (''Invalid page range: '' @ str_int start_page @ ''-'' @ str_int end_page
             @ ''. PDF has '' @ str_int (int (length pages)) @ '' pages.''),
        [PdfGet pdf_url, CreateTemp (tmp_name env ''.pdf''),
         WriteTemp (tmp_name env ''.pdf'') (content resp), ReadPdf (tmp_name env ''.pdf''),
         Unlink (tmp_name env ''.pdf'')])"
  using assms by (simp add: split_unfold)

lemma split_valid_range:
  assumes "get_pdf_libraries env = Inr ()" and "pdf_get env pdf_url = Inr resp"
    and "status_code resp = 200"
    and "temp_write env (tmp_name env ''.pdf'') (content resp) = Inr ()"
    and "read_pdf env (content resp) = Inr pages"
    and "\<not> (start_page < 1 \<or> end_page > int (length pages) \<or> start_page > end_page)"
  shows "split_pdf_pages env pdf_url start_page end_page []
     = (case write_pdf env (selected_pages pages start_page end_page) of
          Inl e \<Rightarrow>
            (Inr (''Failed to split PDF: '' @ str_exn e),
             [PdfGet pdf_url, CreateTemp (tmp_name env ''.pdf''),
              WriteTemp (tmp_name env ''.pdf'') (content resp), ReadPdf (tmp_name env ''.pdf'')]
             @ map AddPage (selected_pages pages start_page end_page)
             @ [CreateTemp (tmp_name env ''_split.pdf''), WritePdf (tmp_name env ''_split.pdf''),
                Unlink (tmp_name env ''.pdf'')])
        | Inr data \<Rightarrow>
            (Inr (split_result_text pdf_url (int (length pages)) start_page end_page
                    (end_page - start_page + 1) data (b64encode env data)),
             [PdfGet pdf_url, CreateTemp (tmp_name env ''.pdf''),
              WriteTemp (tmp_name env ''.pdf'') (content resp), ReadPdf (tmp_name env ''.pdf'')]
             @ map AddPage (selected_pages pages start_page end_page)
             @ [CreateTemp (tmp_name env ''_split.pdf''), WritePdf (tmp_name env ''_split.pdf''),
                ReadFile (tmp_name env ''_split.pdf''), Unlink (tmp_name env ''_split.pdf''),
                Unlink (tmp_name env ''.pdf'')]))"
  using assms by (simp add: split_unfold split: sum.splits)


lemma selected_pages_slice:
  assumes "1 \<le> start_page" "start_page \<le> end_page" "end_page \<le> int (length pages)"
  shows "selected_pages pages start_page end_page
           = take (nat (end_page - start_page + 1)) (drop (nat (start_page - 1)) pages)"
proof (rule nth_equalityI)
  show "length (selected_pages pages start_page end_page)
          = length (take (nat (end_page - start_page + 1)) (drop (nat (start_page - 1)) pages))"
    using assms by (simp add: selected_pages_def)
next
  fix i assume "i < length (selected_pages pages start_page end_page)"
  then have i: "int i < end_page - start_page + 1" by (simp add: selected_pages_def)
  then have "[start_page - 1 .. end_page - 1] ! i = start_page - 1 + int i"
    by (intro nth_upto) simp
  then show "selected_pages pages start_page end_page ! i
          = take (nat (end_page - start_page + 1)) (drop (nat (start_page - 1)) pages) ! i"
    using i assms by (simp add: selected_pages_def nat_add_distrib)
qed

text \<open>
  C5. For a source PDF that was downloaded and read, with \<open>total_pages\<close> pages: a request
  with \<open>start_page < 1\<close>, \<open>end_page > total_pages\<close> or \<open>start_page > end_page\<close> is answered
  with the bounds-error text, which names the range and the page count, and no page is
  added to the writer; a request inside the bounds adds exactly the pages \<open>start_page\<close> to
  \<open>end_page\<close> of the document, \<open>end_page - start_page + 1\<close> of them, and the result text of a
  successful write reports that number.
\<close>

theorem split_pdf_pages_bounds:
  assumes "get_pdf_libraries env = Inr ()" and "pdf_get env pdf_url = Inr resp"
    and "status_code resp = 200"
    and "temp_write env (tmp_name env ''.pdf'') (content resp) = Inr ()"
    and "read_pdf env (content resp) = Inr pages"
    and "split_pdf_pages env pdf_url start_page end_page [] = (r, tr)"
  shows "(start_page < 1 \<or> end_page > int (length pages) \<or> start_page > end_page \<longrightarrow>
            r = Inr (''Invalid page range: '' @ str_int start_page @ ''-'' @ str_int end_page
                     @ ''. PDF has '' @ str_int (int (length pages)) @ '' pages.'')
            \<and> pages_added tr = [])
       \<and> (\<not> (start_page < 1 \<or> end_page > int (length pages) \<or> start_page > end_page) \<longrightarrow>
            pages_added tr
              = take (nat (end_page - start_page + 1)) (drop (nat (start_page - 1)) pages)
            \<and> int (length (pages_added tr)) = end_page - start_page + 1
            \<and> (\<forall>data. write_pdf env (pages_added tr) = Inr data \<longrightarrow>
                  r = Inr (split_result_text pdf_url (int (length pages)) start_page end_page
                             (end_page - start_page + 1) data (b64encode env data))))"
proof (intro conjI impI)
  assume bad: "start_page < 1 \<or> end_page > int (length pages) \<or> start_page > end_page"
  show "r = Inr (''Invalid page range: '' @ str_int start_page @ ''-'' @ str_int end_page
                     @ ''. PDF has '' @ str_int (int (length pages)) @ '' pages.'')"
    and "pages_added tr = []"
    using split_invalid_range[OF assms(1-5) bad] assms(6) by simp_all
next
  assume ok: "\<not> (start_page < 1 \<or> end_page > int (length pages) \<or> start_page > end_page)"
  have added: "pages_added tr = selected_pages pages start_page end_page"
    using split_valid_range[OF assms(1-5) ok] assms(6)
    by (auto simp: pages_added_append pages_added_map split: sum.splits)
  show "pages_added tr
          = take (nat (end_page - start_page + 1)) (drop (nat (start_page - 1)) pages)"
    using added selected_pages_slice[of start_page end_page pages] ok by simp
  show "int (length (pages_added tr)) = end_page - start_page + 1"
    using added ok by (simp add: length_selected_pages)
  show "\<forall>data. write_pdf env (pages_added tr) = Inr data \<longrightarrow>
          r = Inr (split_result_text pdf_url (int (length pages)) start_page end_page
                     (end_page - start_page + 1) data (b64encode env data))"
    using split_valid_range[OF assms(1-5) ok] assms(6) added by auto
qed


theorem split_pdf_pages_bounds_witness:
  "fst (split_pdf_pages sample_pdf_env ''https://example.org/a.pdf'' 5 10 [])
     = Inr ''Invalid page range: 5-10. PDF has 3 pages.''
   \<and> pages_added (snd (split_pdf_pages sample_pdf_env ''https://example.org/a.pdf'' 5 10 [])) = []
   \<and> pages_added (snd (split_pdf_pages sample_pdf_env ''https://example.org/a.pdf'' 2 3 []))
       = [''b'', ''c'']"
proof -
  let ?u = "''https://example.org/a.pdf''"
  let ?resp = "\<lparr>status_code = 200, content = ''%PDF-1.4 abc'',
                json_body = Inl (Exn ValueError ''Expecting value'')\<rparr>"
  have h1: "get_pdf_libraries sample_pdf_env = Inr ()"
    by (simp add: get_pdf_libraries_def sample_pdf_env_def)
  have h2: "pdf_get sample_pdf_env ?u = Inr ?resp" by (simp add: sample_pdf_env_def)
  have h3: "status_code ?resp = 200" by simp
  have h4: "temp_write sample_pdf_env (tmp_name sample_pdf_env ''.pdf'') (content ?resp) = Inr ()"
    by (simp add: sample_pdf_env_def)
  have h5: "read_pdf sample_pdf_env (content ?resp) = Inr [''a'', ''b'', ''c'']"
    by (simp add: sample_pdf_env_def)
  have s: "str_int 5 = ''5''" "str_int 10 = ''10''" "str_int 3 = ''3''" by code_simp+
  have a: "fst (split_pdf_pages sample_pdf_env ?u 5 10 [])
             = Inr ''Invalid page range: 5-10. PDF has 3 pages.''
           \<and> pages_added (snd (split_pdf_pages sample_pdf_env ?u 5 10 [])) = []"
    using split_pdf_pages_bounds[OF h1 h2 h3 h4 h5, of 5 10
        "fst (split_pdf_pages sample_pdf_env ?u 5 10 [])"
        "snd (split_pdf_pages sample_pdf_env ?u 5 10 [])"] s
    by simp
  have b: "pages_added (snd (split_pdf_pages sample_pdf_env ?u 2 3 [])) = [''b'', ''c'']"
    using split_pdf_pages_bounds[OF h1 h2 h3 h4 h5, of 2 3
        "fst (split_pdf_pages sample_pdf_env ?u 2 3 [])"
        "snd (split_pdf_pages sample_pdf_env ?u 2 3 [])"]
    by (simp add: numeral_eq_Suc)
  show ?thesis using a b by simp
qed

lemma temp_files_left_append:
  "temp_files_left (xs @ ys) fs = temp_files_left ys (temp_files_left xs fs)"
  by (induction xs fs rule: temp_files_left.induct) simp_all

lemma temp_files_left_add_pages: "temp_files_left (map AddPage ps) fs = fs"
  by (induction ps) simp_all

text \<open>Where nothing fails after the download, no temporary file is left.\<close>

lemma split_success_leaves_nothing:
  assumes "get_pdf_libraries env = Inr ()" and "pdf_get env pdf_url = Inr resp"
    and "status_code resp = 200"
    and "temp_write env (tmp_name env ''.pdf'') (content resp) = Inr ()"
    and "read_pdf env (content resp) = Inr pages"
    and "write_pdf env (selected_pages pages start_page end_page) = Inr data"
  shows "temp_files_left (snd (split_pdf_pages env pdf_url start_page end_page [])) [] = []"
proof (cases "start_page < 1 \<or> end_page > int (length pages) \<or> start_page > end_page")
  case True
  then show ?thesis using split_invalid_range[OF assms(1-5) True] by simp
next
  case False
  then show ?thesis using split_valid_range[OF assms(1-5) False] assms(6)
    by (simp add: temp_files_left_append temp_files_left_add_pages)
qed

text \<open>
  C6 at \<open>split_pdf_pages\<close>.  With the disk full when the writer writes its output, the
  handler returns its failure text and the output file it created is still on disk: the
  \<open>finally\<close> clause deletes the input file only, and the deletion of the output file is
  on the path of success.
\<close>

theorem split_pdf_pages_leaves_output_file:
  "split_pdf_pages disk_full_pdf_env ''https://example.org/a.pdf'' 1 2 []
     = (Inr ''Failed to split PDF: [Errno 28] No space left on device'',
        [PdfGet ''https://example.org/a.pdf'', CreateTemp ''/tmp/tmp0.pdf'',
         WriteTemp ''/tmp/tmp0.pdf'' ''%PDF-1.4 abc'', ReadPdf ''/tmp/tmp0.pdf'',
         AddPage ''a'', AddPage ''b'', CreateTemp ''/tmp/tmp0_split.pdf'',
         WritePdf ''/tmp/tmp0_split.pdf'', Unlink ''/tmp/tmp0.pdf''])
   \<and> temp_files_left (snd (split_pdf_pages disk_full_pdf_env ''https://example.org/a.pdf'' 1 2 [])) []
       = [''/tmp/tmp0_split.pdf'']"
proof -
  let ?u = "''https://example.org/a.pdf''"
  let ?resp = "\<lparr>status_code = 200, content = ''%PDF-1.4 abc'',
                json_body = Inl (Exn ValueError ''Expecting value'')\<rparr>"
  have h1: "get_pdf_libraries disk_full_pdf_env = Inr ()"
    by (simp add: get_pdf_libraries_def sample_pdf_env_def disk_full_pdf_env_def)
  have h2: "pdf_get disk_full_pdf_env ?u = Inr ?resp"
    by (simp add: sample_pdf_env_def disk_full_pdf_env_def)
  have h3: "status_code ?resp = 200" by simp
  have h4: "temp_write disk_full_pdf_env (tmp_name disk_full_pdf_env ''.pdf'') (content ?resp) = Inr ()"
    by (simp add: sample_pdf_env_def disk_full_pdf_env_def)
  have h5: "read_pdf disk_full_pdf_env (content ?resp) = Inr [''a'', ''b'', ''c'']"
    by (simp add: sample_pdf_env_def disk_full_pdf_env_def)
  have ok: "\<not> ((1::int) < 1 \<or> 2 > int (length [''a'', ''b'', ''c'']) \<or> (1::int) > 2)" by simp
  have sel: "selected_pages [''a'', ''b'', ''c''] 1 2 = [''a'', ''b'']"
    by (simp add: selected_pages_slice numeral_eq_Suc)
  show ?thesis
    using split_valid_range[OF h1 h2 h3 h4 h5 ok]
    by (simp add: sel sample_pdf_env_def disk_full_pdf_env_def)
qed


lemma io_try_raised:
  assumes "m tr = (Inl e, tr')"
  shows "io_try m h tr = h e tr'"
  using assms by (simp add: io_try_def)













end
